theory Spec2Isabelle
  imports Main "HOL-Library.Word"
begin

unbundle bit_operations_syntax

section \<open>Python helpers used by the sources\<close>

text \<open>The exceptions of the Python runtime that the modelled functions can raise,
  next to the error classes the repository declares itself (see below).\<close>

datatype py_error = KeyError | StructError | OverflowError | AttributeError | IndexError | TypeError

text \<open>\<^verbatim>\<open>str.replace('-', '')\<close>: every hyphen is dropped.\<close>

definition strip_hyphens :: "string \<Rightarrow> string" where
  "strip_hyphens s = filter (\<lambda>c. c \<noteq> CHR ''-'') s"

text \<open>\<^verbatim>\<open>str.zfill(width)\<close>: left padding with \<^verbatim>\<open>'0'\<close>, after a leading sign
  when there is one.\<close>

definition zfill :: "string \<Rightarrow> nat \<Rightarrow> string" where
  "zfill s width =
     (if width \<le> length s then s
      else (case s of
              [] \<Rightarrow> replicate width (CHR ''0'')
            | c # cs \<Rightarrow>
                if c = CHR ''+'' \<or> c = CHR ''-''
                then c # replicate (width - length s) (CHR ''0'') @ cs
                else replicate (width - length s) (CHR ''0'') @ s))"

text \<open>\<^verbatim>\<open>sep.join(parts)\<close>.\<close>

fun join :: "'a list \<Rightarrow> 'a list list \<Rightarrow> 'a list" where
  "join sep [] = []"
| "join sep [x] = x"
| "join sep (x # y # ys) = x @ sep @ join sep (y # ys)"

text \<open>Modelled from the spec: \<^verbatim>\<open>utils.chunked(sequence, n)\<close>, whose module is not among
  the sources. The spec (4.1): fixed-size slices of length \<open>n\<close> of the input, in order,
  with no padding of a short final slice. The callers pass \<open>n = 4\<close> and \<open>n = 8\<close>; for
  \<open>n = 0\<close>, about which the spec is silent, the model yields no slice.\<close>

function chunked :: "'a list \<Rightarrow> nat \<Rightarrow> 'a list list" where
  "chunked xs n = (if n = 0 \<or> xs = [] then [] else take n xs # chunked (drop n xs) n)"
  by pat_completeness auto
termination
  by (relation "measure (\<lambda>(xs, n). length xs)") auto

declare chunked.simps [simp del]

section \<open>The error taxonomy (errors.py) and the error classes of designs/encode.py\<close>

text \<open>\<^verbatim>\<open>str(n)\<close> for a Python integer.\<close>

fun str_nat :: "nat \<Rightarrow> string" where
  "str_nat n =
     (if n < 10 then [''0123456789'' ! n]
      else str_nat (n div 10) @ [''0123456789'' ! (n mod 10)])"

declare str_nat.simps [simp del]

definition str_int :: "int \<Rightarrow> string" where
  "str_int i = (if i < 0 then CHR ''-'' # str_nat (nat (- i)) else str_nat (nat i))"

text \<open>\<^verbatim>\<open>Layer\<close> of designs/encode.py (the dataclass), declared here because error instances
  carry layers. \<^verbatim>\<open>size\<close> is (width, height).\<close>

type_synonym XY = "nat \<times> nat"

record Layer =
  name :: string
  size' :: XY

text \<open>The values an attribute of an error instance or an entry of a structured report
  holds. \<open>PRegex\<close> is a compiled pattern, kept as its source text (\<^verbatim>\<open>regex.pattern\<close>);
  \<open>PFormatted t\<close> is \<^verbatim>\<open>t.format(self)\<close>, kept as the template \<open>t\<close>: the rendering of a
  template is not modelled.\<close>

datatype pyval =
    PInt int
  | PStr string
  | PStrList "string list"
  | PSize XY
  | PLayer Layer
  | PRegex string
  | PFormatted string

text \<open>Python dictionaries keep insertion order: a list of pairs with distinct keys.
  Assigning to a key that is present keeps its position.\<close>

type_synonym ('k, 'v) dict = "('k \<times> 'v) list"

fun dict_set :: "('k, 'v) dict \<Rightarrow> 'k \<Rightarrow> 'v \<Rightarrow> ('k, 'v) dict" where
  "dict_set [] k v = [(k, v)]"
| "dict_set ((k', v') # d) k v = (if k' = k then (k, v) # d else (k', v') # dict_set d k v)"

definition dict_get :: "('k, 'v) dict \<Rightarrow> 'k \<Rightarrow> 'v option" where
  "dict_get d k = map_of d k"

definition dict_keys :: "('k, 'v) dict \<Rightarrow> 'k list" where
  "dict_keys d = map fst d"

definition dict_values :: "('k, 'v) dict \<Rightarrow> 'v list" where
  "dict_values d = map snd d"

text \<open>\<^verbatim>\<open>{key(x): value(x) for x in xs}\<close>.\<close>

definition dict_of :: "('k \<times> 'v) list \<Rightarrow> ('k, 'v) dict" where
  "dict_of kvs = foldl (\<lambda>d (k, v). dict_set d k v) [] kvs"

definition BAD_REQUEST :: int where "BAD_REQUEST = 400"
definition UNAUTHORIZED :: int where "UNAUTHORIZED = 401"
definition NOT_FOUND :: int where "NOT_FOUND = 404"
definition REQUEST_ENTITY_TOO_LARGE :: int where "REQUEST_ENTITY_TOO_LARGE = 413"

text \<open>Modelled from the spec: the constants of designs/format.py, which is not among the
  sources. The spec (4.2): palette capacity 15, four bytes per pixel, the standard layer
  32 by 32.\<close>

definition PALETTE_SIZE :: nat where "PALETTE_SIZE = 15"
definition BYTES_PER_PIXEL :: nat where "BYTES_PER_PIXEL = 4"
definition STANDARD_WIDTH :: nat where "STANDARD_WIDTH = 32"
definition STANDARD_HEIGHT :: nat where "STANDARD_HEIGHT = 32"
definition STANDARD :: XY where "STANDARD = (STANDARD_WIDTH, STANDARD_HEIGHT)"

text \<open>The classes of errors.py, in the order of the module, then the five classes that
  designs/encode.py declares under names errors.py also uses (prefixed \<open>Encode\<close>).
  errors.py declares \<^verbatim>\<open>InvalidLayerSizeError\<close> and \<^verbatim>\<open>InvalidImageError\<close> twice; the second
  declaration rebinds the name, the first class (suffix \<open>first\<close>) stays the base of the
  classes declared in between.\<close>

datatype error_class =
    ACNHError
  | InvalidFormatError
  | DodoCodeError
  | UnknownDodoCodeError
  | InvalidDodoCodeError
  | ImageError
  | DesignError
  | UnknownDesignCodeError
  | InvalidDesignCodeError
  | UnknownAuthorIdError
  | InvalidScaleFactorError
  | InvalidAuthorIdError
  | InvalidProArgument
  | InvalidDesignError
  | InvalidPaletteError
  | InvalidLayerSizeError_first
  | CannotScaleThumbnailError
  | UnknownImageIdError
  | InvalidLayerIndexError
  | DeletionDeniedError
  | InvalidImageError_first
  | SingleLayerRequired
  | InvalidLayerSizeError
  | TiledImageTooBigError
  | InvalidImageArgument
  | InvalidLayerNameError
  | InvalidLayerError
  | MissingLayerError
  | InvalidImageError
  | InvalidImageIdError
  | InvalidImageDeletionToken
  | AuthorizationError
  | MissingUserAgentStringError
  | IncorrectAuthorizationError
  | Encode_InvalidLayerNameError
  | Encode_InvalidLayerError
  | Encode_InvalidPaletteError
  | Encode_InvalidLayerSizeError
  | Encode_MissingLayerError

text \<open>The base classes as each \<^verbatim>\<open>class\<close> statement lists them. \<^verbatim>\<open>ACNHError\<close> derives from
  the builtin \<^verbatim>\<open>Exception\<close> and \<^verbatim>\<open>CannotScaleThumbnailError\<close> from nothing (\<^verbatim>\<open>object\<close>);
  the builtin classes, which have none of the attributes below, are left out.\<close>

fun bases :: "error_class \<Rightarrow> error_class list" where
  "bases ACNHError = []"
| "bases InvalidFormatError = [ACNHError]"
| "bases DodoCodeError = [ACNHError]"
| "bases UnknownDodoCodeError = [DodoCodeError]"
| "bases InvalidDodoCodeError = [DodoCodeError, InvalidFormatError]"
| "bases ImageError = [ACNHError]"
| "bases DesignError = [ACNHError]"
| "bases UnknownDesignCodeError = [DesignError]"
| "bases InvalidDesignCodeError = [DesignError, InvalidFormatError]"
| "bases UnknownAuthorIdError = [DesignError]"
| "bases InvalidScaleFactorError = [InvalidFormatError]"
| "bases InvalidAuthorIdError = [DesignError, InvalidFormatError]"
| "bases InvalidProArgument = [DesignError, InvalidFormatError]"
| "bases InvalidDesignError = [DesignError]"
| "bases InvalidPaletteError = [DesignError]"
| "bases InvalidLayerSizeError_first = [DesignError]"
| "bases CannotScaleThumbnailError = []"
| "bases UnknownImageIdError = [ImageError]"
| "bases InvalidLayerIndexError = [ACNHError]"
| "bases DeletionDeniedError = [ImageError]"
| "bases InvalidImageError_first = [ImageError]"
| "bases SingleLayerRequired = [InvalidImageError_first]"
| "bases InvalidLayerSizeError = [InvalidImageError_first]"
| "bases TiledImageTooBigError = [InvalidImageError_first]"
| "bases InvalidImageArgument = [ImageError]"
| "bases InvalidLayerNameError = [DesignError]"
| "bases InvalidLayerError = [DesignError]"
| "bases MissingLayerError = [InvalidLayerError]"
| "bases InvalidImageError = [ImageError]"
| "bases InvalidImageIdError = [ImageError, InvalidFormatError]"
| "bases InvalidImageDeletionToken = [ImageError, InvalidFormatError]"
| "bases AuthorizationError = [ACNHError]"
| "bases MissingUserAgentStringError = [AuthorizationError]"
| "bases IncorrectAuthorizationError = [AuthorizationError]"
| "bases Encode_InvalidLayerNameError = [DesignError]"
| "bases Encode_InvalidLayerError = [DesignError]"
| "bases Encode_InvalidPaletteError = [DesignError]"
| "bases Encode_InvalidLayerSizeError = [DesignError]"
| "bases Encode_MissingLayerError = [Encode_InvalidLayerError]"

text \<open>The method resolution order Python computes from the bases (the C3 linearisation).
  No class here is more than three levels below \<^verbatim>\<open>ACNHError\<close>, every class with two bases
  lists two direct children of \<^verbatim>\<open>ACNHError\<close>, and so the order is: the class, its first
  base, then its second base or the first base's own chain, \<^verbatim>\<open>ACNHError\<close> last.\<close>

definition mro :: "error_class \<Rightarrow> error_class list" where
  "mro c =
     c # (case bases c of
            [] \<Rightarrow> []
          | [b] \<Rightarrow> b # (case bases b of
                          [] \<Rightarrow> []
                        | [b'] \<Rightarrow> b' # bases b'
                        | b' # _ \<Rightarrow> b' # bases b')
          | b1 # b2 # _ \<Rightarrow> [b1, b2, ACNHError])"


text \<open>The class attributes of \<^verbatim>\<open>InvalidDesignCodeError\<close> that designs/api.py reads.\<close>

definition DESIGN_CODE_ALPHABET :: string where
  "DESIGN_CODE_ALPHABET = ''0123456789BCDFGHJKLMNPQRSTVWXY''"

text \<open>\<^verbatim>\<open>{c: val for val, c in enumerate(DESIGN_CODE_ALPHABET)}\<close>: a later entry of the
  comprehension overwrites an earlier one.\<close>

definition DESIGN_CODE_ALPHABET_VALUES :: "char \<rightharpoonup> int" where
  "DESIGN_CODE_ALPHABET_VALUES =
     foldl (\<lambda>m (val, c). m(c \<mapsto> int val)) Map.empty (enumerate 0 DESIGN_CODE_ALPHABET)"

text \<open>The attributes each class body assigns (annotations without a value, as in
  \<^verbatim>\<open>ACNHError\<close>, assign nothing). \<^verbatim>\<open>TiledImageTooBigError\<close> and the second
  \<^verbatim>\<open>InvalidImageError\<close> assign \<^verbatim>\<open>status\<close>, not \<^verbatim>\<open>http_status\<close>. The message of
  \<^verbatim>\<open>TiledImageTooBigError\<close> interpolates \<^verbatim>\<open>MAX_DESIGN_TILES\<close> of designs/format.py, whose
  value neither the sources nor the spec give: the placeholder is kept. The
  multiplication sign of two messages is the two bytes of its UTF-8 encoding; the
  double quote and the backslash are written by their codes.\<close>

definition times_sign :: string where
  "times_sign = [CHR 0xC3, CHR 0x97]"

definition quote :: string where
  "quote = [CHR 0x22]"

definition backslash :: string where
  "backslash = [CHR 0x5C]"

definition layer_size_message :: string where
  "layer_size_message =
     ''layer '' @ quote @ ''{0.layer.name}'' @ quote
       @ '' did not meet the expected size ({0.layer.size[0]}''
       @ times_sign @ ''{0.layer.size[1]})''"

definition missing_layer_message :: string where
  "missing_layer_message =
     ''Payload was missing one or more layers. First missing layer: ''
       @ quote @ ''{0.layer.name}'' @ quote"

definition design_code_segment :: string where
  "design_code_segment = ''['' @ DESIGN_CODE_ALPHABET @ '']{4}''"

definition design_code_pattern :: string where
  "design_code_pattern = join ''-'' (replicate 3 design_code_segment)"

fun class_attrs :: "error_class \<Rightarrow> (string, pyval) dict" where
  "class_attrs ACNHError = []"
| "class_attrs InvalidFormatError = [(''http_status'', PInt BAD_REQUEST)]"
| "class_attrs DodoCodeError = []"
| "class_attrs UnknownDodoCodeError =
     [(''code'', PInt 101), (''http_status'', PInt NOT_FOUND),
      (''message'', PStr ''unknown dodo code'')]"
| "class_attrs InvalidDodoCodeError =
     [(''code'', PInt 102), (''message'', PStr ''invalid dodo code''),
      (''regex'', PRegex ''[A-HJ-NP-Y0-9]{5}'')]"
| "class_attrs ImageError = []"
| "class_attrs DesignError = []"
| "class_attrs UnknownDesignCodeError =
     [(''code'', PInt 201), (''message'', PStr ''unknown design code''),
      (''http_status'', PInt NOT_FOUND)]"
| "class_attrs InvalidDesignCodeError =
     [(''code'', PInt 202), (''message'', PStr ''invalid design code''),
      (''DESIGN_CODE_ALPHABET'', PStr DESIGN_CODE_ALPHABET),
      (''regex'', PRegex design_code_pattern)]"
| "class_attrs UnknownAuthorIdError =
     [(''code'', PInt 203), (''message'', PStr ''unknown author ID''),
      (''http_status'', PInt NOT_FOUND)]"
| "class_attrs InvalidScaleFactorError =
     [(''message'', PStr ''invalid scale factor''), (''code'', PInt 204),
      (''regex'', PRegex ''[123456]'')]"
| "class_attrs InvalidAuthorIdError =
     [(''code'', PInt 205), (''message'', PStr ''invalid author ID''),
      (''regex'', PRegex (backslash @ ''d{4}-?'' @ backslash @ ''d{4}-?'' @ backslash @ ''d{4}''))]"
| "class_attrs InvalidProArgument =
     [(''message'', PStr ''invalid value for pro argument''), (''code'', PInt 206),
      (''regex'', PRegex ''[01]|(?:false|true)|[ft]'')]"
| "class_attrs InvalidDesignError =
     [(''code'', PInt 207), (''message'', PStr ''invalid design''),
      (''http_status'', PInt BAD_REQUEST)]"
| "class_attrs InvalidPaletteError =
     [(''code'', PInt 208),
      (''message'', PStr (''the combined palette of all layers exceeds ''
                           @ str_nat PALETTE_SIZE @ '' colors'')),
      (''http_status'', PInt BAD_REQUEST)]"
| "class_attrs InvalidLayerSizeError_first =
     [(''code'', PInt 209), (''message'', PStr layer_size_message)]"
| "class_attrs CannotScaleThumbnailError =
     [(''message'', PStr ''cannot scale thumbnails''), (''code'', PInt 230),
      (''http_status'', PInt BAD_REQUEST)]"
| "class_attrs UnknownImageIdError =
     [(''code'', PInt 301), (''message'', PStr ''unknown image ID''),
      (''http_status'', PInt NOT_FOUND)]"
| "class_attrs InvalidLayerIndexError =
     [(''code'', PInt 302), (''message'', PStr ''invalid image layer'')]"
| "class_attrs DeletionDeniedError =
     [(''code'', PInt 303), (''message'', PStr ''you do not own this image''),
      (''http_status'', PInt UNAUTHORIZED)]"
| "class_attrs InvalidImageError_first = [(''http_status'', PInt BAD_REQUEST)]"
| "class_attrs SingleLayerRequired =
     [(''code'', PInt 304),
      (''message'', PStr (''A single layer was required, but more than one was passed. ''
                           @ ''If tiling was requested, do not pass multiple layers.''))]"
| "class_attrs InvalidLayerSizeError =
     [(''code'', PInt 305),
      (''message'', PStr (''One or more layers was not {0.width}'' @ times_sign
                           @ ''{0.height}.''))]"
| "class_attrs TiledImageTooBigError =
     [(''code'', PInt 306),
      (''message'', PStr ''The uploaded image would exceed {MAX_DESIGN_TILES} tiles.''),
      (''status'', PInt REQUEST_ENTITY_TOO_LARGE)]"
| "class_attrs InvalidImageArgument =
     [(''code'', PInt 307),
      (''message'', PStr ''missing or invalid required image argument {.argument_name}''),
      (''http_status'', PInt BAD_REQUEST)]"
| "class_attrs InvalidLayerNameError =
     [(''code'', PInt 308), (''message'', PStr ''Invalid image layer name.''),
      (''http_status'', PInt BAD_REQUEST)]"
| "class_attrs InvalidLayerError = [(''http_status'', PInt BAD_REQUEST)]"
| "class_attrs MissingLayerError =
     [(''code'', PInt 309), (''message'', PStr missing_layer_message),
      (''http_status'', PInt BAD_REQUEST)]"
| "class_attrs InvalidImageError =
     [(''code'', PInt 310),
      (''message'', PStr ''One or more layers submitted represented an invalid image.''),
      (''status'', PInt BAD_REQUEST)]"
| "class_attrs InvalidImageIdError =
     [(''code'', PInt 311), (''message'', PStr ''Invalid image ID.''),
      (''regex'', PRegex ''[0-9]+'')]"
| "class_attrs InvalidImageDeletionToken =
     [(''code'', PInt 312), (''message'', PStr ''invalid image deletion token''),
      (''regex'', PRegex ''[a-zA-Z0-9]+'')]"
| "class_attrs AuthorizationError = []"
| "class_attrs MissingUserAgentStringError =
     [(''code'', PInt 901), (''message'', PStr ''User-Agent header required''),
      (''http_status'', PInt BAD_REQUEST)]"
| "class_attrs IncorrectAuthorizationError =
     [(''code'', PInt 902),
      (''message'', PStr ''invalid or incorrect Authorization header''),
      (''http_status'', PInt UNAUTHORIZED)]"
| "class_attrs Encode_InvalidLayerNameError =
     [(''code'', PInt 37), (''message'', PStr ''Invalid image layer name.''),
      (''http_status'', PInt BAD_REQUEST)]"
| "class_attrs Encode_InvalidLayerError = [(''http_status'', PInt BAD_REQUEST)]"
| "class_attrs Encode_InvalidPaletteError =
     [(''code'', PInt 27),
      (''message'', PStr (''the combined palette of all layers exceed ''
                           @ str_nat PALETTE_SIZE @ '' colors'')),
      (''http_status'', PInt BAD_REQUEST)]"
| "class_attrs Encode_InvalidLayerSizeError =
     [(''code'', PInt 28), (''message'', PStr layer_size_message)]"
| "class_attrs Encode_MissingLayerError =
     [(''code'', PInt 38), (''message'', PStr missing_layer_message),
      (''http_status'', PInt BAD_REQUEST)]"

text \<open>An error instance: its class and the attributes its \<^verbatim>\<open>__init__\<close> sets. The positional
  arguments that \<^verbatim>\<open>BaseException\<close> also keeps in \<^verbatim>\<open>args\<close> are not modelled, except for
  \<^verbatim>\<open>InvalidLayerSizeError(self.name)\<close> of designs/encode.py, which has no \<^verbatim>\<open>__init__\<close> of
  its own and keeps the layer name there only.\<close>

record error_instance =
  cls :: error_class
  attrs :: "(string, pyval) dict"

datatype exn =
    Python py_error
  | Raised error_instance
  | HTTPError int

text \<open>\<^verbatim>\<open>raise cls\<close> with no arguments.\<close>

definition new :: "error_class \<Rightarrow> error_instance" where
  "new c = \<lparr>cls = c, attrs = []\<rparr>"

definition new_InvalidLayerIndexError :: "int \<Rightarrow> error_instance" where
  "new_InvalidLayerIndexError num_layers =
     \<lparr>cls = InvalidLayerIndexError, attrs = [(''num_layers'', PInt num_layers)]\<rparr>"

definition new_InvalidLayerSizeError :: "int \<Rightarrow> int \<Rightarrow> error_instance" where
  "new_InvalidLayerSizeError width height =
     \<lparr>cls = InvalidLayerSizeError,
      attrs = [(''width'', PInt width), (''height'', PInt height)]\<rparr>"

definition new_InvalidImageArgument :: "string \<Rightarrow> error_instance" where
  "new_InvalidImageArgument argument_name =
     \<lparr>cls = InvalidImageArgument, attrs = [(''argument_name'', PStr argument_name)]\<rparr>"

definition new_MissingLayerError :: "error_class \<Rightarrow> Layer \<Rightarrow> error_instance" where
  "new_MissingLayerError c layer = \<lparr>cls = c, attrs = [(''layer'', PLayer layer)]\<rparr>"

definition new_InvalidLayerNameError :: "error_class \<Rightarrow> string list \<Rightarrow> error_instance" where
  "new_InvalidLayerNameError c external_layer_names =
     \<lparr>cls = c, attrs = [(''valid_layer_names'', PStrList external_layer_names)]\<rparr>"

definition new_Encode_InvalidLayerSizeError :: "string \<Rightarrow> error_instance" where
  "new_Encode_InvalidLayerSizeError layer_name =
     \<lparr>cls = Encode_InvalidLayerSizeError, attrs = [(''args'', PStrList [layer_name])]\<rparr>"

text \<open>Attribute lookup: the instance, then the classes in method resolution order.\<close>

fun class_getattr :: "error_class list \<Rightarrow> string \<Rightarrow> exn + pyval" where
  "class_getattr [] a = Inl (Python AttributeError)"
| "class_getattr (c # cs) a =
     (case dict_get (class_attrs c) a of Some v \<Rightarrow> Inr v | None \<Rightarrow> class_getattr cs a)"

definition getattr :: "error_instance \<Rightarrow> string \<Rightarrow> exn + pyval" where
  "getattr self a =
     (case dict_get (attrs self) a of
        Some v \<Rightarrow> Inr v
      | None \<Rightarrow> class_getattr (mro (cls self)) a)"

text \<open>Sequencing of fallible steps: the first exception ends the computation.\<close>

definition bind :: "'e + 'a \<Rightarrow> ('a \<Rightarrow> 'e + 'b) \<Rightarrow> 'e + 'b" where
  "bind r f = (case r of Inl e \<Rightarrow> Inl e | Inr x \<Rightarrow> f x)"

text \<open>\<^verbatim>\<open>self.layer.name\<close> and \<^verbatim>\<open>self.layer.size\<close>.\<close>

definition layer_attr :: "error_instance \<Rightarrow> exn + Layer" where
  "layer_attr self =
     bind (getattr self ''layer'')
       (\<lambda>v. case v of PLayer l \<Rightarrow> Inr l | _ \<Rightarrow> Inl (Python AttributeError))"

text \<open>\<^verbatim>\<open>self.message.format(self)\<close>, for a message that is a string.\<close>

definition format_message :: "error_instance \<Rightarrow> exn + pyval" where
  "format_message self =
     bind (getattr self ''message'')
       (\<lambda>v. case v of PStr t \<Rightarrow> Inr (PFormatted t) | _ \<Rightarrow> Inl (Python AttributeError))"

text \<open>\<^verbatim>\<open>to_dict\<close>, resolved along the method resolution order: \<open>to_dict_from cs self\<close> is the
  call that starts the search at the classes \<open>cs\<close>, so \<^verbatim>\<open>super().to_dict()\<close> in the body of
  a class is the call on the classes after it. The result is \<open>None\<close> when the body ends
  without \<^verbatim>\<open>return\<close> (\<^verbatim>\<open>InvalidLayerIndexError\<close>); assigning an entry to \<open>None\<close> is a
  \<^verbatim>\<open>TypeError\<close>; a search that runs out of classes is an \<^verbatim>\<open>AttributeError\<close>.\<close>

definition super_dict :: "exn + (string, pyval) dict option \<Rightarrow>
    ((string, pyval) dict \<Rightarrow> exn + (string, pyval) dict option) \<Rightarrow>
    exn + (string, pyval) dict option" where
  "super_dict r f =
     bind r (\<lambda>d. case d of None \<Rightarrow> Inl (Python TypeError) | Some d \<Rightarrow> f d)"

fun to_dict_from :: "error_class list \<Rightarrow> error_instance \<Rightarrow> exn + (string, pyval) dict option" where
  "to_dict_from [] self = Inl (Python AttributeError)"
| "to_dict_from (c # cs) self =
     (if c = ACNHError then
        bind (getattr self ''message'') (\<lambda>message.
        bind (getattr self ''code'') (\<lambda>code.
        bind (getattr self ''http_status'') (\<lambda>http_status.
          Inr (Some [(''error'', message), (''error_code'', code),
                     (''http_status'', http_status)]))))
      else if c = InvalidFormatError then
        super_dict (to_dict_from cs self) (\<lambda>d.
        bind (getattr self ''regex'') (\<lambda>regex.
          Inr (Some (dict_set d ''validation_regex'' regex))))
      else if c = InvalidLayerIndexError then
        super_dict (to_dict_from cs self) (\<lambda>d.
        bind (getattr self ''num_layers'') (\<lambda>num_layers.
          Inr None))
      else if c = InvalidLayerSizeError then
        super_dict (to_dict_from cs self) (\<lambda>d.
        bind (getattr self ''width'') (\<lambda>width.
        bind (getattr self ''height'') (\<lambda>height.
        bind (case (width, height) of
                (PInt w, PInt h) \<Rightarrow> Inr (PInt (w * h * int BYTES_PER_PIXEL))
              | _ \<Rightarrow> Inl (Python TypeError)) (\<lambda>byte_length.
        bind (format_message self) (\<lambda>message.
          Inr (Some (dict_set (dict_set (dict_set (dict_set d
                 ''expected_width'' width) ''expected_height'' height)
                 ''expected_byte_length'' byte_length) ''message'' message)))))))
      else if c = InvalidImageArgument then
        super_dict (to_dict_from cs self) (\<lambda>d.
        bind (getattr self ''argument_name'') (\<lambda>argument_name.
        bind (case dict_get (dict_set d ''argument_name'' argument_name) ''error'' of
                Some (PStr t) \<Rightarrow> Inr (PFormatted t)
              | Some _ \<Rightarrow> Inl (Python AttributeError)
              | None \<Rightarrow> Inl (Python KeyError)) (\<lambda>error.
          Inr (Some (dict_set (dict_set d ''argument_name'' argument_name)
                 ''error'' error)))))
      else if c = InvalidLayerNameError \<or> c = Encode_InvalidLayerNameError then
        super_dict (to_dict_from cs self) (\<lambda>d.
        bind (getattr self ''valid_layer_names'') (\<lambda>valid_layer_names.
          Inr (Some (dict_set d ''valid_layer_names'' valid_layer_names))))
      else if c = InvalidLayerError \<or> c = Encode_InvalidLayerError then
        super_dict (to_dict_from cs self) (\<lambda>d.
        bind (layer_attr self) (\<lambda>layer.
        bind (format_message self) (\<lambda>error.
          Inr (Some (dict_set (dict_set (dict_set d
                 ''layer_name'' (PStr (name layer))) ''layer_size'' (PSize (size' layer)))
                 ''error'' error)))))
      else to_dict_from cs self)"

definition to_dict :: "error_instance \<Rightarrow> exn + (string, pyval) dict option" where
  "to_dict self = to_dict_from (mro (cls self)) self"

text \<open>The pattern of \<^verbatim>\<open>InvalidDesignCodeError.regex\<close> as \<^verbatim>\<open>re.compile\<close> reads
  \<open>design_code_pattern\<close>: a character class repeated a fixed number of times, or a literal
  character. \<open>fullmatch\<close> is \<^verbatim>\<open>regex.fullmatch(s)\<close> as a truth value: every item consumes
  its characters and nothing is left over.\<close>

datatype pattern_item = CharClass "char list" nat | Literal char

definition design_code_regex :: "pattern_item list" where
  "design_code_regex =
     join [Literal (CHR ''-'')] (replicate 3 [CharClass DESIGN_CODE_ALPHABET 4])"

fun pattern_text :: "pattern_item \<Rightarrow> string" where
  "pattern_text (CharClass cs n) = ''['' @ cs @ '']{'' @ str_nat n @ ''}''"
| "pattern_text (Literal c) = [c]"

fun fullmatch :: "pattern_item list \<Rightarrow> string \<Rightarrow> bool" where
  "fullmatch [] s = (s = [])"
| "fullmatch (CharClass cs n # items) s =
     (n \<le> length s \<and> set (take n s) \<subseteq> set cs \<and> fullmatch items (drop n s))"
| "fullmatch (Literal c # items) s =
     (case s of [] \<Rightarrow> False | x # xs \<Rightarrow> x = c \<and> fullmatch items xs)"

text \<open>\<^verbatim>\<open>InvalidFormatError.validate\<close>, called on \<^verbatim>\<open>InvalidDesignCodeError\<close>.\<close>

definition InvalidDesignCodeError_validate :: "string \<Rightarrow> exn + string" where
  "InvalidDesignCodeError_validate s =
     (if \<not> fullmatch design_code_regex s then Inl (Raised (new InvalidDesignCodeError))
      else Inr s)"

section \<open>The design service client (designs/api.py)\<close>

text \<open>The loop of \<^verbatim>\<open>design_id\<close>; a character outside the alphabet is a \<^verbatim>\<open>KeyError\<close>.\<close>

fun design_id_loop :: "int \<Rightarrow> string \<Rightarrow> exn + int" where
  "design_id_loop n [] = Inr n"
| "design_id_loop n (c # code) =
     (case DESIGN_CODE_ALPHABET_VALUES c of
        None \<Rightarrow> Inl (Python KeyError)
      | Some v \<Rightarrow> design_id_loop (n * 30 + v) code)"

definition design_id :: "string \<Rightarrow> exn + int" where
  "design_id code = design_id_loop 0 (strip_hyphens code)"

text \<open>The \<^verbatim>\<open>while design_id:\<close> loop of \<^verbatim>\<open>design_code\<close>. Python's \<^verbatim>\<open>divmod\<close> floors, as
  \<open>div\<close> and \<open>mod\<close> on \<open>int\<close> do, so the digit is in \<open>0..29\<close> and a negative identifier
  never reaches zero: the loop does not return there, which is the value \<open>None\<close>.\<close>

partial_function (option) design_code_loop :: "int \<Rightarrow> string \<Rightarrow> string option" where
  "design_code_loop n digits =
     (if n \<noteq> 0
      then design_code_loop (n div 30) (digits @ [DESIGN_CODE_ALPHABET ! nat (n mod 30)])
      else Some digits)"

declare design_code_loop.simps [code]

definition add_hyphens :: "string \<Rightarrow> string" where
  "add_hyphens author_id = join ''-'' (chunked (zfill author_id (4 * 3)) 4)"

definition design_code :: "int \<Rightarrow> string option" where
  "design_code n =
     map_option (\<lambda>digits. add_hyphens (zfill (rev digits) (4 * 3)))
       (design_code_loop n [])"

text \<open>\<^verbatim>\<open>DesignId = Union[str, int]\<close>.\<close>

datatype DesignId = Code string | Id int

text \<open>The decorator \<^verbatim>\<open>accepts_design_id\<close>: \<open>accepts_design_id func\<close> is the wrapped function.\<close>

definition accepts_design_id :: "(int \<Rightarrow> exn + 'a) \<Rightarrow> DesignId \<Rightarrow> exn + 'a" where
  "accepts_design_id func design_id_or_code =
     (case design_id_or_code of
        Code s \<Rightarrow> bind (bind (InvalidDesignCodeError_validate s) design_id) func
      | Id n \<Rightarrow> func n)"

text \<open>What the client reads of a response of the service. The request primitive
  \<^verbatim>\<open>acnh().request\<close> belongs to a module that is not among the sources: it is the
  parameter \<open>request\<close>, from the method and the path to the response or to the exception
  the transport raises.\<close>

record response =
  status_code :: int

text \<open>\<^verbatim>\<open>delete_design\<close> before decoration, and as the module exports it.\<close>

definition delete_design_undecorated ::
    "(string \<Rightarrow> string \<Rightarrow> exn + response) \<Rightarrow> int \<Rightarrow> exn + unit" where
  "delete_design_undecorated request n =
     bind (request ''DELETE'' (''/api/v1/designs/'' @ str_int n))
       (\<lambda>resp. if status_code resp = NOT_FOUND
               then Inl (Raised (new UnknownDesignCodeError))
               else Inr ())"

definition delete_design ::
    "(string \<Rightarrow> string \<Rightarrow> exn + response) \<Rightarrow> DesignId \<Rightarrow> exn + unit" where
  "delete_design request = accepts_design_id (delete_design_undecorated request)"

section \<open>The garment catalog and the image codec (designs/encode.py)\<close>

record LayerCorrespondence =
  internal_idx :: nat
  external_name :: string
  internal_pos :: XY
  external_pos :: XY
  dimensions :: XY

text \<open>The two constructors, with positional arguments as the source writes them.\<close>

definition mkLayer :: "string \<Rightarrow> XY \<Rightarrow> Layer" where
  "mkLayer n s = \<lparr>name = n, size' = s\<rparr>"

definition mkLayerCorrespondence :: "nat \<Rightarrow> string \<Rightarrow> XY \<Rightarrow> XY \<Rightarrow> XY \<Rightarrow> LayerCorrespondence" where
  "mkLayerCorrespondence i n ipos epos dims =
     \<lparr>internal_idx = i, external_name = n, internal_pos = ipos, external_pos = epos,
      dimensions = dims\<rparr>"

text \<open>\<^verbatim>\<open>LayerMeta.__mul__\<close>: \<^verbatim>\<open>Layer * x\<close>.\<close>

definition Layer_mul :: "nat \<Rightarrow> Layer list" where
  "Layer_mul x = map (\<lambda>i. mkLayer (str_nat i) STANDARD) [0..<x]"

definition SHORT_SLEEVE :: XY where "SHORT_SLEEVE = (22, 13)"
definition LONG_SLEEVE :: XY where "LONG_SLEEVE = (22, 22)"
definition WIDE_SLEEVE :: XY where "WIDE_SLEEVE = (30, 22)"
definition LONG_BODY :: XY where "LONG_BODY = (32, 41)"

definition STANDARD_BODY_LAYERS :: "Layer list" where
  "STANDARD_BODY_LAYERS = [mkLayer ''back'' STANDARD, mkLayer ''front'' STANDARD]"

definition LONG_BODY_LAYERS :: "Layer list" where
  "LONG_BODY_LAYERS = [mkLayer ''back'' LONG_BODY, mkLayer ''front'' LONG_BODY]"

definition SHORT_SLEEVE_LAYERS :: "Layer list" where
  "SHORT_SLEEVE_LAYERS =
     [mkLayer ''right-sleeve'' SHORT_SLEEVE, mkLayer ''left-sleeve'' SHORT_SLEEVE]"

definition LONG_SLEEVE_LAYERS :: "Layer list" where
  "LONG_SLEEVE_LAYERS =
     [mkLayer ''right-sleeve'' LONG_SLEEVE, mkLayer ''left-sleeve'' LONG_SLEEVE]"

definition WIDE_SLEEVE_LAYERS :: "Layer list" where
  "WIDE_SLEEVE_LAYERS =
     [mkLayer ''right-sleeve'' WIDE_SLEEVE, mkLayer ''left-sleeve'' WIDE_SLEEVE]"

definition SHORT_SLEEVE_CORRESPONDENCE :: "LayerCorrespondence list" where
  "SHORT_SLEEVE_CORRESPONDENCE =
     [mkLayerCorrespondence 2 ''right-sleeve'' (5, 10) (0, 0) SHORT_SLEEVE,
      mkLayerCorrespondence 3 ''left-sleeve'' (5, 10) (0, 0) SHORT_SLEEVE]"

definition LONG_SLEEVE_CORRESPONDENCE :: "LayerCorrespondence list" where
  "LONG_SLEEVE_CORRESPONDENCE =
     [mkLayerCorrespondence 2 ''right-sleeve'' (1, 10) (0, 0) LONG_SLEEVE,
      mkLayerCorrespondence 3 ''left-sleeve'' (1, 10) (0, 0) LONG_SLEEVE]"

definition WIDE_SLEEVE_CORRESPONDENCE :: "LayerCorrespondence list" where
  "WIDE_SLEEVE_CORRESPONDENCE =
     [mkLayerCorrespondence 2 ''right-sleeve'' (1, 10) (0, 0) WIDE_SLEEVE,
      mkLayerCorrespondence 3 ''left-sleeve'' (1, 10) (0, 0) WIDE_SLEEVE]"

definition STANDARD_BODY_CORRESPONDENCE :: "LayerCorrespondence list" where
  "STANDARD_BODY_CORRESPONDENCE =
     [mkLayerCorrespondence 0 ''back'' (0, 0) (0, 0) STANDARD,
      mkLayerCorrespondence 1 ''front'' (0, 0) (0, 0) STANDARD]"

definition LONG_BODY_CORRESPONDENCE :: "LayerCorrespondence list" where
  "LONG_BODY_CORRESPONDENCE =
     [mkLayerCorrespondence 0 ''front'' (0, 0) (0, 0) STANDARD,
      mkLayerCorrespondence 2 ''front'' (0, 0) (0, 32) (32, 9),
      mkLayerCorrespondence 1 ''back'' (0, 0) (0, 0) STANDARD,
      mkLayerCorrespondence 3 ''back'' (0, 0) (0, 32) (32, 9)]"

text \<open>The registered design types: the subclasses of \<^verbatim>\<open>Design\<close>.\<close>

datatype design_type =
    BasicDesign
  | TankTop
  | ShortSleeveTee
  | LongSleeveDressShirt
  | Sweater
  | Hoodie
  | SleevelessDress
  | Coat
  | ShortSleeveDress
  | LongSleeveDress
  | RoundDress
  | BalloonHemDress
  | Robe
  | BrimmedCap
  | KnitCap
  | BrimmedHat

fun type_code :: "design_type \<Rightarrow> int" where
  "type_code BasicDesign = 99"
| "type_code TankTop = 102"
| "type_code ShortSleeveTee = 101"
| "type_code LongSleeveDressShirt = 100"
| "type_code Sweater = 103"
| "type_code Hoodie = 104"
| "type_code SleevelessDress = 107"
| "type_code Coat = 105"
| "type_code ShortSleeveDress = 106"
| "type_code LongSleeveDress = 108"
| "type_code RoundDress = 110"
| "type_code BalloonHemDress = 109"
| "type_code Robe = 111"
| "type_code BrimmedCap = 112"
| "type_code KnitCap = 113"
| "type_code BrimmedHat = 114"

text \<open>The registered class a class derives from, if any (the others derive from
  \<^verbatim>\<open>Design\<close>, which assigns none of the attributes below).\<close>

fun superclass :: "design_type \<Rightarrow> design_type option" where
  "superclass Sweater = Some LongSleeveDressShirt"
| "superclass Hoodie = Some LongSleeveDressShirt"
| "superclass LongSleeveDress = Some Coat"
| "superclass RoundDress = Some ShortSleeveDress"
| "superclass BalloonHemDress = Some ShortSleeveDress"
| "superclass _ = None"

text \<open>The class attributes as each class body assigns them; \<open>None\<close>: the body does not
  assign the attribute.\<close>

fun body_external_layers :: "design_type \<Rightarrow> Layer list option" where
  "body_external_layers BasicDesign = Some [mkLayer ''0'' STANDARD]"
| "body_external_layers TankTop = Some STANDARD_BODY_LAYERS"
| "body_external_layers ShortSleeveTee =
     Some (STANDARD_BODY_LAYERS @ SHORT_SLEEVE_LAYERS)"
| "body_external_layers LongSleeveDressShirt =
     Some (STANDARD_BODY_LAYERS @ LONG_SLEEVE_LAYERS)"
| "body_external_layers Sweater = None"
| "body_external_layers Hoodie = None"
| "body_external_layers SleevelessDress = Some LONG_BODY_LAYERS"
| "body_external_layers Coat =
     Some (LONG_BODY_LAYERS @ LONG_SLEEVE_LAYERS)"
| "body_external_layers ShortSleeveDress =
     Some (LONG_BODY_LAYERS @ SHORT_SLEEVE_LAYERS)"
| "body_external_layers LongSleeveDress = None"
| "body_external_layers RoundDress = None"
| "body_external_layers BalloonHemDress = None"
| "body_external_layers Robe =
     Some (LONG_BODY_LAYERS @ WIDE_SLEEVE_LAYERS)"
| "body_external_layers BrimmedCap =
     Some [mkLayer ''front'' (44, 41), mkLayer ''back'' (20, 44), mkLayer ''brim'' (44, 21)]"
| "body_external_layers KnitCap = Some [mkLayer ''cap'' (64, 53)]"
| "body_external_layers BrimmedHat =
     Some [mkLayer ''top'' (36, 36), mkLayer ''middle'' (64, 19), mkLayer ''bottom'' (64, 9)]"

fun body_internal_layers :: "design_type \<Rightarrow> Layer list option" where
  "body_internal_layers BasicDesign = None"
| "body_internal_layers TankTop = None"
| "body_internal_layers ShortSleeveTee = Some (Layer_mul 4)"
| "body_internal_layers LongSleeveDressShirt = Some (Layer_mul 4)"
| "body_internal_layers Sweater = None"
| "body_internal_layers Hoodie = None"
| "body_internal_layers SleevelessDress = Some (Layer_mul 4)"
| "body_internal_layers Coat = None"
| "body_internal_layers ShortSleeveDress = Some (Layer_mul 4)"
| "body_internal_layers LongSleeveDress = None"
| "body_internal_layers RoundDress = None"
| "body_internal_layers BalloonHemDress = None"
| "body_internal_layers Robe = Some (Layer_mul 4)"
| "body_internal_layers BrimmedCap = Some (Layer_mul 4)"
| "body_internal_layers KnitCap =
     Some [mkLayer ''0'' STANDARD, mkLayer ''1'' STANDARD,
           mkLayer ''2'' (32, 21), mkLayer ''3'' (32, 21)]"
| "body_internal_layers BrimmedHat = Some (Layer_mul 4)"

fun body_correspondence :: "design_type \<Rightarrow> LayerCorrespondence list option" where
  "body_correspondence BasicDesign = None"
| "body_correspondence TankTop = None"
| "body_correspondence ShortSleeveTee =
     Some (STANDARD_BODY_CORRESPONDENCE @ SHORT_SLEEVE_CORRESPONDENCE)"
| "body_correspondence LongSleeveDressShirt =
     Some (STANDARD_BODY_CORRESPONDENCE @ LONG_SLEEVE_CORRESPONDENCE)"
| "body_correspondence Sweater = None"
| "body_correspondence Hoodie = None"
| "body_correspondence SleevelessDress = Some LONG_BODY_CORRESPONDENCE"
| "body_correspondence Coat =
     Some (LONG_BODY_CORRESPONDENCE @ LONG_SLEEVE_CORRESPONDENCE)"
| "body_correspondence ShortSleeveDress =
     Some (LONG_BODY_CORRESPONDENCE @ SHORT_SLEEVE_CORRESPONDENCE)"
| "body_correspondence LongSleeveDress = None"
| "body_correspondence RoundDress = None"
| "body_correspondence BalloonHemDress = None"
| "body_correspondence Robe =
     Some (LONG_BODY_CORRESPONDENCE @ WIDE_SLEEVE_CORRESPONDENCE)"
| "body_correspondence BrimmedCap =
     Some [mkLayerCorrespondence 0 ''front'' (0, 0) (0, 0) STANDARD,
           mkLayerCorrespondence 1 ''front'' (0, 0) (32, 0) (12, 32),
           mkLayerCorrespondence 2 ''front'' (0, 0) (0, 32) (32, 9),
           mkLayerCorrespondence 3 ''front'' (0, 0) (32, 32) (12, 9),
           mkLayerCorrespondence 1 ''back'' (12, 0) (0, 0) (20, 32),
           mkLayerCorrespondence 3 ''back'' (12, 0) (0, 32) (20, 12),
           mkLayerCorrespondence 2 ''brim'' (0, 11) (0, 0) (32, 21),
           mkLayerCorrespondence 3 ''brim'' (0, 11) (32, 0) (12, 21)]"
| "body_correspondence KnitCap =
     Some [mkLayerCorrespondence 0 ''cap'' (0, 0) (0, 0) STANDARD,
           mkLayerCorrespondence 0 ''cap'' (0, 0) (32, 0) STANDARD,
           mkLayerCorrespondence 0 ''cap'' (0, 0) (0, 32) STANDARD,
           mkLayerCorrespondence 0 ''cap'' (0, 0) (32, 32) STANDARD]"
| "body_correspondence BrimmedHat =
     Some [mkLayerCorrespondence 0 ''top'' (14, 0) (0, 0) (18, 32),
           mkLayerCorrespondence 1 ''top'' (0, 0) (18, 0) (18, 32),
           mkLayerCorrespondence 2 ''top'' (14, 0) (0, 32) (18, 4),
           mkLayerCorrespondence 3 ''top'' (0, 0) (18, 32) (18, 4),
           mkLayerCorrespondence 2 ''middle'' (0, 4) (0, 0) (32, 19),
           mkLayerCorrespondence 3 ''middle'' (0, 4) (32, 0) (32, 19),
           mkLayerCorrespondence 2 ''bottom'' (0, 23) (0, 0) (32, 9),
           mkLayerCorrespondence 3 ''bottom'' (0, 23) (32, 0) (32, 9)]"

text \<open>Attribute lookup on a class: its own body, then its superclass. No registered
  class is more than one level below another.\<close>

definition inherited :: "(design_type \<Rightarrow> 'a option) \<Rightarrow> design_type \<Rightarrow> 'a option" where
  "inherited body t =
     (case body t of
        Some v \<Rightarrow> Some v
      | None \<Rightarrow> (case superclass t of None \<Rightarrow> None | Some b \<Rightarrow> body b))"

text \<open>Every registered class assigns or inherits \<^verbatim>\<open>external_layers\<close>.\<close>

definition external_layers :: "design_type \<Rightarrow> Layer list" where
  "external_layers t = (case inherited body_external_layers t of Some ls \<Rightarrow> ls | None \<Rightarrow> [])"

text \<open>What \<^verbatim>\<open>__init_subclass__\<close> adds: the default internal layers, the (absent)
  correspondence, the name index and the flag \<^verbatim>\<open>one_to_one\<close>.\<close>

definition internal_layers :: "design_type \<Rightarrow> Layer list" where
  "internal_layers t =
     (case inherited body_internal_layers t of
        Some ls \<Rightarrow> ls
      | None \<Rightarrow> map (\<lambda>(i, l). mkLayer (str_nat i) (size' l)) (enumerate 0 (external_layers t)))"

definition correspondence :: "design_type \<Rightarrow> LayerCorrespondence list option" where
  "correspondence t = inherited body_correspondence t"

definition external_layer_names :: "design_type \<Rightarrow> (string, Layer) dict" where
  "external_layer_names t = dict_of (map (\<lambda>layer. (name layer, layer)) (external_layers t))"

definition one_to_one :: "design_type \<Rightarrow> bool" where
  "one_to_one t = (correspondence t = None)"

text \<open>What the codec reads of an image of the imaging library: its size (width, height)
  and the bytes \<^verbatim>\<open>export_pixels()\<close> yields, four per pixel in row-major order.\<close>

record image =
  image_size :: XY
  export_pixels :: "8 word list"

text \<open>\<^verbatim>\<open>Layer.as_wand\<close>: a blank canvas of the layer's size; the library fills a new image
  with transparent pixels.\<close>

definition as_wand :: "Layer \<Rightarrow> image" where
  "as_wand self =
     \<lparr>image_size = size' self, export_pixels = replicate (4 * fst (size' self) * snd (size' self)) 0\<rparr>"

text \<open>A design: an object of one of the registered classes.\<close>

record design =
  dtype :: design_type
  author_name :: "string option"
  island_name :: "string option"
  design_name :: "string option"
  layer_images :: "(string, image) dict"

text \<open>\<^verbatim>\<open>Design.copy\<close> crops the source and composites it on the destination through the
  imaging library, in place. It is the parameter \<open>copy\<close>: from the destination, the
  source, the two positions and the dimensions to the destination as it is afterwards, or
  to the exception the library raises.\<close>

type_synonym copy_fn = "image \<Rightarrow> image \<Rightarrow> XY \<Rightarrow> XY \<Rightarrow> XY \<Rightarrow> exn + image"

fun internalize_loop ::
    "copy_fn \<Rightarrow> (string, image) dict \<Rightarrow> LayerCorrespondence list \<Rightarrow> image list \<Rightarrow> exn + image list" where
  "internalize_loop copy images [] out = Inr out"
| "internalize_loop copy images (c # cs) out =
     (if length out \<le> internal_idx c then Inl (Python IndexError)
      else case dict_get images (external_name c) of
             None \<Rightarrow> Inl (Python KeyError)
           | Some src \<Rightarrow>
               bind (copy (out ! internal_idx c) src (internal_pos c) (external_pos c)
                       (dimensions c))
                 (\<lambda>dst. internalize_loop copy images cs (out[internal_idx c := dst])))"

definition internalize :: "copy_fn \<Rightarrow> design \<Rightarrow> exn + image list" where
  "internalize copy self =
     (if one_to_one (dtype self) then Inr (dict_values (layer_images self))
      else case correspondence (dtype self) of
             None \<Rightarrow> Inl (Python TypeError)
           | Some cs \<Rightarrow>
               internalize_loop copy (layer_images self) cs
                 (map as_wand (internal_layers (dtype self))))"

text \<open>\<^verbatim>\<open>Layer.validate\<close> and \<^verbatim>\<open>Design.validate\<close>. The loop runs over the name index in
  insertion order; a size mismatch raises inside the \<^verbatim>\<open>try\<close> and is not a \<^verbatim>\<open>KeyError\<close>.\<close>

definition Layer_validate :: "Layer \<Rightarrow> image \<Rightarrow> exn + unit" where
  "Layer_validate self img =
     (if image_size img \<noteq> size' self
      then Inl (Raised (new_Encode_InvalidLayerSizeError (name self)))
      else Inr ())"

fun validate_loop :: "(string, Layer) dict \<Rightarrow> (string, image) dict \<Rightarrow> exn + unit" where
  "validate_loop [] images = Inr ()"
| "validate_loop ((layer_name, layer) # items) images =
     (case dict_get images (name layer) of
        None \<Rightarrow> Inl (Raised (new_MissingLayerError Encode_MissingLayerError layer))
      | Some img \<Rightarrow> bind (Layer_validate layer img) (\<lambda>_. validate_loop items images))"

definition validate :: "design \<Rightarrow> exn + unit" where
  "validate self =
     bind (validate_loop (external_layer_names (dtype self)) (layer_images self))
       (\<lambda>_. if length (external_layers (dtype self)) < length (layer_images self)
            then Inl (Raised (new_InvalidLayerNameError Encode_InvalidLayerNameError
                                (dict_keys (external_layer_names (dtype self)))))
            else Inr ())"

definition pro :: "design \<Rightarrow> bool" where
  "pro self = (1 < length (internal_layers (dtype self)))"

text \<open>\<^verbatim>\<open>struct.Struct('>L').unpack\<close> wants exactly four bytes and
  \<^verbatim>\<open>struct.Struct('>LL').unpack_from\<close> at least eight; both read big-endian.\<close>

definition uint32 :: "8 word \<Rightarrow> 8 word \<Rightarrow> 8 word \<Rightarrow> 8 word \<Rightarrow> 32 word" where
  "uint32 b0 b1 b2 b3 =
     push_bit 24 (ucast b0) OR push_bit 16 (ucast b1) OR push_bit 8 (ucast b2) OR ucast b3"

fun LITTLE_ENDIAN_UINT32_unpack :: "8 word list \<Rightarrow> exn + 32 word" where
  "LITTLE_ENDIAN_UINT32_unpack [b0, b1, b2, b3] = Inr (uint32 b0 b1 b2 b3)"
| "LITTLE_ENDIAN_UINT32_unpack _ = Inl (Python StructError)"

fun TWO_LITTLE_ENDIAN_UINT32S_unpack_from :: "8 word list \<Rightarrow> exn + 32 word \<times> 32 word" where
  "TWO_LITTLE_ENDIAN_UINT32S_unpack_from (b0 # b1 # b2 # b3 # b4 # b5 # b6 # b7 # _) =
     Inr (uint32 b0 b1 b2 b3, uint32 b4 b5 b6 b7)"
| "TWO_LITTLE_ENDIAN_UINT32S_unpack_from _ = Inl (Python StructError)"

text \<open>\<^verbatim>\<open>gen_palette\<close>: the state of the two loops is the palette and the counter.\<close>

fun gen_palette_pixels ::
    "(32 word, nat) dict \<times> nat \<Rightarrow> 8 word list list \<Rightarrow> exn + (32 word, nat) dict \<times> nat" where
  "gen_palette_pixels st [] = Inr st"
| "gen_palette_pixels (palette, color_i) (px # pxs) =
     bind (LITTLE_ENDIAN_UINT32_unpack px)
       (\<lambda>color. gen_palette_pixels
          (if dict_get palette color = None
           then (dict_set palette color color_i, color_i + 1)
           else (palette, color_i)) pxs)"

fun gen_palette_layers ::
    "(32 word, nat) dict \<times> nat \<Rightarrow> 8 word list list \<Rightarrow> exn + (32 word, nat) dict \<times> nat" where
  "gen_palette_layers st [] = Inr st"
| "gen_palette_layers st (pxs # pxss) =
     bind (gen_palette_pixels st (chunked pxs 4)) (\<lambda>st'. gen_palette_layers st' pxss)"

definition gen_palette :: "8 word list list \<Rightarrow> exn + (32 word, nat) dict" where
  "gen_palette pxss =
     bind (gen_palette_layers ([], 0) pxss)
       (\<lambda>(palette, color_i).
          if PALETTE_SIZE < length palette then Inl (Raised (new Encode_InvalidPaletteError))
          else Inr palette)"

text \<open>\<^verbatim>\<open>int.to_bytes(1, byteorder='big')\<close> of a non-negative integer.\<close>

definition to_bytes1 :: "nat \<Rightarrow> exn + 8 word" where
  "to_bytes1 n = (if n < 256 then Inr (of_nat n) else Inl (Python OverflowError))"

text \<open>\<^verbatim>\<open>encode_image\<close>: \<open>img\<close> is what has been written so far.\<close>

fun encode_image_loop ::
    "(32 word, nat) dict \<Rightarrow> 8 word list list \<Rightarrow> 8 word list \<Rightarrow> exn + 8 word list" where
  "encode_image_loop palette [] img = Inr img"
| "encode_image_loop palette (pixels # rest) img =
     bind (TWO_LITTLE_ENDIAN_UINT32S_unpack_from pixels)
       (\<lambda>(px1, px2).
          case dict_get palette px2 of
            None \<Rightarrow> Inl (Python KeyError)
          | Some i2 \<Rightarrow>
              (case dict_get palette px1 of
                 None \<Rightarrow> Inl (Python KeyError)
               | Some i1 \<Rightarrow>
                   bind (to_bytes1 (push_bit 4 i2 OR i1))
                     (\<lambda>b. encode_image_loop palette rest (img @ [b]))))"

definition encode_image :: "(32 word, nat) dict \<Rightarrow> 8 word list \<Rightarrow> exn + 8 word list" where
  "encode_image palette pxs = encode_image_loop palette (chunked pxs 8) []"

text \<open>\<^verbatim>\<open>encode_image_data\<close> and its result, with the fixed entries of
  \<^verbatim>\<open>DUMMY_EXTRA_METADATA\<close>.\<close>

record img_data =
  mPalette :: "(string, 32 word) dict"
  mData :: "(string, 8 word list) dict"
  mAuthor :: "(string, int) dict"
  mFlg :: int
  mClSet :: int

fun encode_layers ::
    "(32 word, nat) dict \<Rightarrow> (nat \<times> 8 word list) list \<Rightarrow> (string, 8 word list) dict \<Rightarrow>
       exn + (string, 8 word list) dict" where
  "encode_layers palette [] layers = Inr layers"
| "encode_layers palette ((i, pxs) # rest) layers =
     bind (encode_image palette pxs)
       (\<lambda>data. encode_layers palette rest (dict_set layers (str_nat i) data))"

definition encode_image_data :: "8 word list list \<Rightarrow> exn + img_data" where
  "encode_image_data pxss =
     bind (gen_palette pxss) (\<lambda>palette.
     bind (encode_layers palette (enumerate 0 pxss) []) (\<lambda>layers.
       Inr \<lparr>mPalette =
              dict_set (dict_of (map (\<lambda>(color, i). (str_nat i, color)) palette))
                (str_nat PALETTE_SIZE) 0,
            mData = layers,
            mAuthor = [(''mVId'', 4255292630), (''mPId'', 2422107098), (''mGender'', 0)],
            mFlg = 2,
            mClSet = 238\<rparr>))"

text \<open>\<^verbatim>\<open>encode_pro\<close>: the flag \<^verbatim>\<open>was_quantized\<close> and the image data.\<close>

definition encode_pro :: "copy_fn \<Rightarrow> design \<Rightarrow> exn + bool \<times> img_data" where
  "encode_pro copy d =
     bind (validate d) (\<lambda>_.
     bind (internalize copy d) (\<lambda>images.
     bind (gen_palette (map export_pixels images)) (\<lambda>palette.
     bind (encode_image_data (map export_pixels images)) (\<lambda>data.
       Inr (False, data)))))"

section \<open>Auxiliary notions for the proofs\<close>

text \<open>The base-30 digits of a number, least significant first, as the loop of
  \<^verbatim>\<open>design_code\<close> produces them; the symbol of a digit; and the twelve or more symbols of
  an identifier, most significant first and padded with zeros.\<close>

fun lsf_digits :: "nat \<Rightarrow> nat list" where
  "lsf_digits n = (if n = 0 then [] else n mod 30 # lsf_digits (n div 30))"

declare lsf_digits.simps [simp del]

definition symbol :: "nat \<Rightarrow> char" where
  "symbol d = DESIGN_CODE_ALPHABET ! d"

definition padded :: "nat \<Rightarrow> string" where
  "padded n = replicate (12 - length (lsf_digits n)) (CHR ''0'') @ rev (map symbol (lsf_digits n))"

text \<open>The pixels of a buffer, four bytes each and big-endian, as both \<^verbatim>\<open>struct\<close> patterns of
  designs/encode.py read them; the palette index of a color that is in the palette; the
  bytes that packing pairs of pixels yields; and the step of the loops of
  \<^verbatim>\<open>gen_palette\<close>.\<close>

fun pixels_of :: "8 word list \<Rightarrow> 32 word list" where
  "pixels_of (b0 # b1 # b2 # b3 # rest) = uint32 b0 b1 b2 b3 # pixels_of rest"
| "pixels_of _ = []"

definition index_of :: "(32 word, nat) dict \<Rightarrow> 32 word \<Rightarrow> nat" where
  "index_of palette color = the (dict_get palette color)"

fun packed_pairs :: "(32 word, nat) dict \<Rightarrow> 32 word list \<Rightarrow> 8 word list" where
  "packed_pairs palette (px1 # px2 # rest) =
     of_nat (push_bit 4 (index_of palette px2) OR index_of palette px1)
       # packed_pairs palette rest"
| "packed_pairs palette _ = []"

definition palette_add :: "(32 word, nat) dict \<times> nat \<Rightarrow> 32 word \<Rightarrow> (32 word, nat) dict \<times> nat" where
  "palette_add st color =
     (if dict_get (fst st) color = None
      then (dict_set (fst st) color (snd st), snd st + 1)
      else st)"

text \<open>A declared layer is supplied when the layer mapping has an image under its name
  and the image has the declared size.\<close>

definition supplied :: "(string, image) dict \<Rightarrow> Layer \<Rightarrow> bool" where
  "supplied images layer =
     (case dict_get images (name layer) of
        None \<Rightarrow> False
      | Some img \<Rightarrow> image_size img = size' layer)"

text \<open>Inputs for the concrete cases below: a tank top (the smallest design that takes the
  pro path) whose back layer starts with sixteen opaque pixels of sixteen colors and is
  blank after them, and whose front layer is blank; and a mapping from which the front
  layer is missing while the back layer has the wrong size.\<close>

definition sixteen_colors :: "8 word list" where
  "sixteen_colors = concat (map (\<lambda>i. [of_nat i, 0, 0, 255]) [0..<16])"

definition colorful_tank_top :: design where
  "colorful_tank_top =
     \<lparr>dtype = TankTop, author_name = None, island_name = Some ''island'',
      design_name = Some ''sixteen'',
      layer_images =
        [(''back'', \<lparr>image_size = (32, 32),
                      export_pixels = sixteen_colors @ replicate (4 * (32 * 32 - 16)) 0\<rparr>),
         (''front'', as_wand (mkLayer ''front'' STANDARD))]\<rparr>"

definition half_tank_top :: design where
  "half_tank_top =
     \<lparr>dtype = TankTop, author_name = None, island_name = Some ''island'',
      design_name = Some ''half'',
      layer_images = [(''back'', as_wand (mkLayer ''back'' (16, 16)))]\<rparr>"

section \<open>The codec: digits, padding and hyphens\<close>

lemma lsf_digits_0: "lsf_digits 0 = []"
  by (simp add: lsf_digits.simps)

lemma lsf_digits_pos: "n \<noteq> 0 \<Longrightarrow> lsf_digits n = n mod 30 # lsf_digits (n div 30)"
  by (subst lsf_digits.simps) simp

lemma alphabet_all:
  "\<forall>d \<in> set [0..<30]. DESIGN_CODE_ALPHABET_VALUES (symbol d) = Some (int d)
      \<and> symbol d \<noteq> CHR ''-'' \<and> symbol d \<noteq> CHR ''+'' \<and> symbol d \<in> set DESIGN_CODE_ALPHABET"
  by code_simp

lemma values_symbol: "d < 30 \<Longrightarrow> DESIGN_CODE_ALPHABET_VALUES (symbol d) = Some (int d)"
  using alphabet_all by simp

lemma symbol_not_sign: "d < 30 \<Longrightarrow> symbol d \<noteq> CHR ''-'' \<and> symbol d \<noteq> CHR ''+''"
  using alphabet_all by simp

lemma symbol_in_alphabet: "d < 30 \<Longrightarrow> symbol d \<in> set DESIGN_CODE_ALPHABET"
  using alphabet_all by simp

lemma symbol_zero: "symbol 0 = CHR ''0''"
  by (simp add: symbol_def DESIGN_CODE_ALPHABET_def)

lemma lsf_digits_bound: "d \<in> set (lsf_digits n) \<Longrightarrow> d < 30"
proof (induction n arbitrary: d rule: less_induct)
  case (less n)
  show ?case
  proof (cases "n = 0")
    case True
    with less.prems show ?thesis by (simp add: lsf_digits.simps)
  next
    case False
    then have "lsf_digits n = n mod 30 # lsf_digits (n div 30)"
      by (simp add: lsf_digits.simps)
    moreover have "n div 30 < n" using False by simp
    ultimately show ?thesis using less.IH less.prems by auto
  qed
qed

lemma design_code_loop_nat:
  "design_code_loop (int n) acc = Some (acc @ map symbol (lsf_digits n))"
proof (induction n arbitrary: acc rule: less_induct)
  case (less n)
  show ?case
  proof (cases "n = 0")
    case True
    then show ?thesis by (simp add: design_code_loop.simps lsf_digits.simps)
  next
    case False
    have lt: "n div 30 < n" using False by simp
    have "design_code_loop (int n) acc =
            design_code_loop (int (n div 30)) (acc @ [symbol (n mod 30)])"
      using False
      by (subst design_code_loop.simps) (simp add: symbol_def zdiv_int zmod_int nat_mod_distrib)
    also have "\<dots> = Some ((acc @ [symbol (n mod 30)]) @ map symbol (lsf_digits (n div 30)))"
      by (rule less.IH [OF lt])
    also have "\<dots> = Some (acc @ map symbol (lsf_digits n))"
      using False by (simp add: lsf_digits.simps [of n])
    finally show ?thesis .
  qed
qed

lemma design_id_loop_symbols:
  "\<forall>d \<in> set ds. d < 30 \<Longrightarrow>
     design_id_loop a (map symbol ds) = Inr (foldl (\<lambda>n d. n * 30 + int d) a ds)"
  by (induction ds arbitrary: a) (simp_all add: values_symbol)

lemma foldl_lsf_digits: "foldr (\<lambda>d n. n * 30 + int d) (lsf_digits n) 0 = int n"
proof (induction n rule: less_induct)
  case (less n)
  show ?case
  proof (cases "n = 0")
    case True
    then show ?thesis by (simp add: lsf_digits.simps)
  next
    case False
    then have "n div 30 < n" by simp
    from less.IH [OF this] False show ?thesis
      by (simp add: lsf_digits.simps [of n] zdiv_int zmod_int flip: of_nat_mult of_nat_add)
  qed
qed

lemma design_id_loop_digits:
  "design_id_loop 0 (rev (map symbol (lsf_digits n))) = Inr (int n)"
proof -
  have "design_id_loop 0 (map symbol (rev (lsf_digits n)))
          = Inr (foldl (\<lambda>n d. n * 30 + int d) 0 (rev (lsf_digits n)))"
    by (rule design_id_loop_symbols) (simp add: lsf_digits_bound)
  then show ?thesis by (simp add: rev_map foldl_conv_foldr foldl_lsf_digits)
qed

lemma design_id_loop_zeros:
  "design_id_loop 0 (replicate k (CHR ''0'') @ s) = design_id_loop 0 s"
  using values_symbol [of 0] by (induction k) (simp_all add: symbol_zero)

lemma chunked_Nil: "chunked [] n = []"
  by (simp add: chunked.simps)

lemma chunked_step: "0 < n \<Longrightarrow> xs \<noteq> [] \<Longrightarrow> chunked xs n = take n xs # chunked (drop n xs) n"
  by (subst chunked.simps) simp

lemma concat_chunked: "0 < n \<Longrightarrow> concat (chunked xs n) = xs"
proof (induction xs n rule: chunked.induct)
  case (1 xs n)
  then show ?case by (cases "xs = []") (simp_all add: chunked_Nil chunked_step)
qed

lemma strip_hyphens_join:
  "strip_hyphens (join ''-'' xss) = strip_hyphens (concat xss)"
  by (induction "''-''" xss rule: join.induct) (simp_all add: strip_hyphens_def)

lemma strip_hyphens_id: "CHR ''-'' \<notin> set s \<Longrightarrow> strip_hyphens s = s"
  by (induction s) (auto simp: strip_hyphens_def)

lemma length_join: "length (join [c] xss) = length (concat xss) + (length xss - 1)"
  by (induction "[c]" xss rule: join.induct) simp_all

lemma chunked_length_gt:
  "0 < n \<Longrightarrow> k * n < length xs \<Longrightarrow> k < length (chunked xs n)"
proof (induction k arbitrary: xs)
  case 0
  then have "xs \<noteq> []" by auto
  with 0 show ?case by (simp add: chunked.simps [of xs n])
next
  case (Suc k)
  then have ne: "xs \<noteq> []" by auto
  have "k * n < length (drop n xs)" using Suc.prems by simp
  from Suc.IH [OF Suc.prems(1) this] ne Suc.prems(1) show ?case
    by (simp add: chunked.simps [of xs n])
qed

lemma chunked_12:
  assumes "length s = 12"
  shows "chunked s 4 = [take 4 s, take 4 (drop 4 s), drop 8 s]"
proof -
  have "s \<noteq> []" "drop 4 s \<noteq> []" "drop 8 s \<noteq> []" "drop 12 s = []"
    using assms by auto
  then show ?thesis
    using assms
    by (simp add: chunked.simps [of s] chunked.simps [of "drop 4 s"]
        chunked.simps [of "drop 8 s"] chunked.simps [of "[]"])
qed

lemma zfill_unsigned:
  "\<forall>c \<in> set s. c \<noteq> CHR ''+'' \<and> c \<noteq> CHR ''-'' \<Longrightarrow>
     zfill s w = replicate (w - length s) (CHR ''0'') @ s"
  by (cases s) (auto simp: zfill_def)

lemma length_lsf_digits: "length (lsf_digits n) \<le> k \<longleftrightarrow> n < 30 ^ k"
proof (induction k arbitrary: n)
  case 0
  show ?case by (cases "n = 0") (simp_all add: lsf_digits_0 lsf_digits_pos)
next
  case (Suc k)
  show ?case
  proof (cases "n = 0")
    case True
    then show ?thesis by (simp add: lsf_digits_0)
  next
    case False
    have "n div 30 < 30 ^ k \<longleftrightarrow> n < 30 ^ Suc k"
      by (simp add: less_mult_imp_div_less div_less_iff_less_mult mult.commute)
    with False Suc.IH [of "n div 30"] show ?thesis
      by (simp add: lsf_digits_pos)
  qed
qed

lemma padded_chars: "c \<in> set (padded n) \<Longrightarrow> c \<in> set DESIGN_CODE_ALPHABET \<and> c \<noteq> CHR ''-'' \<and> c \<noteq> CHR ''+''"
  using symbol_in_alphabet [of 0] symbol_not_sign [of 0]
  by (auto simp: padded_def symbol_zero dest!: lsf_digits_bound
      intro: symbol_in_alphabet dest: symbol_not_sign)

lemma length_padded: "length (padded n) = max 12 (length (lsf_digits n))"
  by (simp add: padded_def)

lemma design_code_nat: "design_code (int n) = Some (join ''-'' (chunked (padded n) 4))"
proof -
  have unsigned: "\<forall>c \<in> set (rev (map symbol (lsf_digits n))). c \<noteq> CHR ''+'' \<and> c \<noteq> CHR ''-''"
    using symbol_not_sign by (auto dest!: lsf_digits_bound)
  have z1: "zfill (rev (map symbol (lsf_digits n))) 12 = padded n"
    using zfill_unsigned [OF unsigned] by (simp add: padded_def)
  have z2: "zfill (padded n) 12 = padded n"
    by (simp add: zfill_def length_padded)
  show ?thesis
    using design_code_loop_nat [of n "[]"]
    by (simp add: design_code_def add_hyphens_def z1 z2)
qed

lemma design_id_padded: "design_id (join ''-'' (chunked (padded n) 4)) = Inr (int n)"
proof -
  have "CHR ''-'' \<notin> set (padded n)"
    using padded_chars by blast
  then have "strip_hyphens (join ''-'' (chunked (padded n) 4)) = padded n"
    by (simp add: strip_hyphens_join concat_chunked strip_hyphens_id)
  then show ?thesis
    by (simp add: design_id_def padded_def design_id_loop_zeros design_id_loop_digits)
qed

text \<open>Claim C1. For every identifier \<open>n\<close> with \<open>0 \<le> n < 30\<^sup>1\<^sup>2\<close>, \<open>design_code n\<close>
  returns three groups of four symbols of the alphabet joined by two hyphens, fourteen
  characters in all, and \<open>design_id\<close> maps that code back to \<open>n\<close>; the code of \<open>0\<close> is
  \<open>0000-0000-0000\<close>, whose identifier is \<open>0\<close>.\<close>

theorem design_code_roundtrip:
  "(0 \<le> n \<and> n < 30 ^ 12 \<longrightarrow>
      (\<exists>a b c. design_code n = Some (a @ ''-'' @ b @ ''-'' @ c)
         \<and> length a = 4 \<and> length b = 4 \<and> length c = 4
         \<and> set (a @ b @ c) \<subseteq> set DESIGN_CODE_ALPHABET
         \<and> length (a @ ''-'' @ b @ ''-'' @ c) = 14
         \<and> design_id (a @ ''-'' @ b @ ''-'' @ c) = Inr n))
   \<and> design_code 0 = Some ''0000-0000-0000''
   \<and> design_id ''0000-0000-0000'' = Inr 0"
proof (intro conjI impI)
  assume range: "0 \<le> n \<and> n < 30 ^ 12"
  define m where "m = nat n"
  have n: "n = int m" using range by (simp add: m_def)
  have "m < 30 ^ 12" using range by (simp add: m_def nat_less_iff)
  then have len: "length (padded m) = 12"
    using length_lsf_digits [of m 12] by (simp add: length_padded)
  let ?a = "take 4 (padded m)" and ?b = "take 4 (drop 4 (padded m))" and ?c = "drop 8 (padded m)"
  have code: "join ''-'' (chunked (padded m) 4) = ?a @ ''-'' @ ?b @ ''-'' @ ?c"
    by (simp add: chunked_12 [OF len])
  have "set (?a @ ?b @ ?c) \<subseteq> set (padded m)"
    by (auto dest: in_set_takeD in_set_dropD)
  then have chars: "set (?a @ ?b @ ?c) \<subseteq> set DESIGN_CODE_ALPHABET"
    using padded_chars by blast
  have "design_code n = Some (?a @ ''-'' @ ?b @ ''-'' @ ?c)"
    using design_code_nat [of m] by (simp only: n code)
  moreover have "design_id (?a @ ''-'' @ ?b @ ''-'' @ ?c) = Inr n"
    using design_id_padded [of m] by (simp only: n code)
  moreover have "length ?a = 4" "length ?b = 4" "length ?c = 4"
    using len by simp_all
  ultimately show "\<exists>a b c. design_code n = Some (a @ ''-'' @ b @ ''-'' @ c)
         \<and> length a = 4 \<and> length b = 4 \<and> length c = 4
         \<and> set (a @ b @ c) \<subseteq> set DESIGN_CODE_ALPHABET
         \<and> length (a @ ''-'' @ b @ ''-'' @ c) = 14
         \<and> design_id (a @ ''-'' @ b @ ''-'' @ c) = Inr n"
    using chars by (intro exI [of _ ?a] exI [of _ ?b] exI [of _ ?c]) simp
next
  have p0: "padded 0 = ''000000000000''"
    by (simp add: padded_def lsf_digits_0 eval_nat_numeral)
  have "join ''-'' (chunked (padded 0) 4) = ''0000-0000-0000''"
    by (subst chunked_12) (simp_all add: p0)
  then show "design_code 0 = Some ''0000-0000-0000''"
    using design_code_nat [of 0] by simp
  show "design_id ''0000-0000-0000'' = Inr 0"
    using values_symbol [of 0]
    by (simp add: design_id_def strip_hyphens_def symbol_zero)
qed

theorem design_code_roundtrip_witness:
  "(0::int) \<le> 24300029 \<and> (24300029::int) < 30 ^ 12
   \<and> (\<exists>a b c. design_code 24300029 = Some (a @ ''-'' @ b @ ''-'' @ c)
         \<and> length a = 4 \<and> length b = 4 \<and> length c = 4
         \<and> set (a @ b @ c) \<subseteq> set DESIGN_CODE_ALPHABET
         \<and> length (a @ ''-'' @ b @ ''-'' @ c) = 14
         \<and> design_id (a @ ''-'' @ b @ ''-'' @ c) = Inr 24300029)"
  using design_code_roundtrip [of 24300029] by simp

text \<open>Claim C9. \<open>design_code\<close> has no range check: for every \<open>n \<ge> 0\<close> the loop returns,
  \<open>design_id\<close> maps the code back to \<open>n\<close>, and from \<open>30\<^sup>1\<^sup>2\<close> on the code is longer than
  fourteen characters.\<close>

theorem design_code_unbounded:
  "0 \<le> n \<Longrightarrow>
     \<exists>s. design_code n = Some s \<and> design_id s = Inr n \<and> (30 ^ 12 \<le> n \<longrightarrow> 14 < length s)"
proof -
  assume nonneg: "0 \<le> n"
  define m where "m = nat n"
  have n: "n = int m" using nonneg by (simp add: m_def)
  let ?s = "join ''-'' (chunked (padded m) 4)"
  have "14 < length ?s" if big: "30 ^ 12 \<le> n"
  proof -
    have "\<not> m < 30 ^ 12" using big by (simp add: m_def le_nat_iff)
    then have "12 < length (padded m)"
      using length_lsf_digits [of m 12] by (simp add: length_padded)
    then have "3 < length (chunked (padded m) 4)" "12 < length (concat (chunked (padded m) 4))"
      using chunked_length_gt [of 4 3 "padded m"] by (simp_all add: concat_chunked)
    then show ?thesis
      using length_join [of "CHR ''-''" "chunked (padded m) 4"] by simp
  qed
  then show ?thesis
    using design_code_nat [of m] design_id_padded [of m] by (auto simp: n)
qed

theorem design_code_unbounded_witness:
  "(0::int) \<le> 30 ^ 12
   \<and> (\<exists>s. design_code (30 ^ 12) = Some s \<and> design_id s = Inr (30 ^ 12) \<and> 14 < length s)"
  using design_code_unbounded [of "30 ^ 12"] by simp

section \<open>The client: validation of codes, deletion, structured reports\<close>

lemma design_code_regex_items:
  "design_code_regex =
     [CharClass DESIGN_CODE_ALPHABET 4, Literal (CHR ''-''),
      CharClass DESIGN_CODE_ALPHABET 4, Literal (CHR ''-''),
      CharClass DESIGN_CODE_ALPHABET 4]"
  by (simp add: design_code_regex_def eval_nat_numeral)

lemma design_code_regex_text: "concat (map pattern_text design_code_regex) = design_code_pattern"
proof -
  have "str_nat 4 = ''4''"
    by (simp add: str_nat.simps)
  moreover have "replicate 3 design_code_segment =
      [design_code_segment, design_code_segment, design_code_segment]"
    by (simp add: eval_nat_numeral)
  ultimately show ?thesis
    by (simp add: design_code_regex_items design_code_pattern_def design_code_segment_def)
qed

lemma fullmatch_CharClass:
  "fullmatch (CharClass cs n # items) s \<Longrightarrow>
     \<exists>a r. s = a @ r \<and> length a = n \<and> set a \<subseteq> set cs \<and> fullmatch items r"
  by (rule exI [of _ "take n s"], rule exI [of _ "drop n s"]) simp

lemma fullmatch_Literal:
  "fullmatch (Literal c # items) s \<Longrightarrow> \<exists>r. s = c # r \<and> fullmatch items r"
  by (cases s) simp_all

lemma fullmatch_length:
  assumes "fullmatch design_code_regex s"
  shows "length s = 14"
proof -
  from assms obtain a r1 where a: "s = a @ r1" "length a = 4"
    and r1: "fullmatch [Literal (CHR ''-''), CharClass DESIGN_CODE_ALPHABET 4,
               Literal (CHR ''-''), CharClass DESIGN_CODE_ALPHABET 4] r1"
    unfolding design_code_regex_items by (blast dest: fullmatch_CharClass)
  from r1 obtain r2 where r2: "r1 = CHR ''-'' # r2"
    "fullmatch [CharClass DESIGN_CODE_ALPHABET 4, Literal (CHR ''-''),
       CharClass DESIGN_CODE_ALPHABET 4] r2"
    by (blast dest: fullmatch_Literal)
  from r2(2) obtain b r3 where b: "r2 = b @ r3" "length b = 4"
    and r3: "fullmatch [Literal (CHR ''-''), CharClass DESIGN_CODE_ALPHABET 4] r3"
    by (blast dest: fullmatch_CharClass)
  from r3 obtain r4 where r4: "r3 = CHR ''-'' # r4"
    "fullmatch [CharClass DESIGN_CODE_ALPHABET 4] r4"
    by (blast dest: fullmatch_Literal)
  from r4(2) obtain c r5 where c: "r4 = c @ r5" "length c = 4" and "fullmatch [] r5"
    by (blast dest: fullmatch_CharClass)
  then have "r5 = []" by simp
  with a r2(1) b r4(1) c show ?thesis by simp
qed

lemma fullmatch_hyphenated:
  assumes "length a = 4" "length b = 4" "length c = 4"
    and "set (a @ b @ c) \<subseteq> set DESIGN_CODE_ALPHABET"
  shows "fullmatch design_code_regex (a @ ''-'' @ b @ ''-'' @ c)"
  using assms by (simp add: design_code_regex_items)

lemma alphabet_value:
  assumes "c \<in> set DESIGN_CODE_ALPHABET"
  shows "\<exists>v. DESIGN_CODE_ALPHABET_VALUES c = Some v \<and> c \<noteq> CHR ''-''"
proof -
  from assms obtain d where "d < length DESIGN_CODE_ALPHABET" "c = DESIGN_CODE_ALPHABET ! d"
    by (auto simp: in_set_conv_nth)
  then have "d < 30" "c = symbol d"
    by (simp_all add: DESIGN_CODE_ALPHABET_def symbol_def)
  then show ?thesis
    using values_symbol [of d] symbol_not_sign [of d] by simp
qed

lemma design_id_loop_alphabet:
  "set s \<subseteq> set DESIGN_CODE_ALPHABET \<Longrightarrow> \<exists>n. design_id_loop m s = Inr n"
proof (induction s arbitrary: m)
  case Nil
  show ?case by simp
next
  case (Cons c s)
  then obtain v where "DESIGN_CODE_ALPHABET_VALUES c = Some v"
    using alphabet_value [of c] by auto
  with Cons show ?case by simp
qed

lemma strip_hyphens_hyphenated:
  assumes "set (a @ b @ c) \<subseteq> set DESIGN_CODE_ALPHABET"
  shows "strip_hyphens (a @ ''-'' @ b @ ''-'' @ c) = a @ b @ c"
proof -
  have "\<forall>x \<in> set (a @ b @ c). x \<noteq> CHR ''-''"
    using assms alphabet_value by blast
  then have "filter (\<lambda>x. x \<noteq> CHR ''-'') a = a" "filter (\<lambda>x. x \<noteq> CHR ''-'') b = b"
    "filter (\<lambda>x. x \<noteq> CHR ''-'') c = c"
    by (simp_all add: filter_id_conv)
  then show ?thesis
    by (simp add: strip_hyphens_def)
qed

text \<open>Claim C3, as amended. A string made of three groups of four alphabet symbols joined
  by two hyphens passes the validation of \<^verbatim>\<open>accepts_design_id\<close>, is converted by
  \<open>design_id\<close> and the wrapped function is called on the identifier; a string that is
  not fourteen characters long, so every code written without hyphens, is refused with
  \<^verbatim>\<open>InvalidDesignCodeError\<close>; an integer is passed on as it is.\<close>

theorem accepts_design_id_hyphens_required:
  "(length a = 4 \<and> length b = 4 \<and> length c = 4
      \<and> set (a @ b @ c) \<subseteq> set DESIGN_CODE_ALPHABET \<longrightarrow>
      (\<exists>n. design_id (a @ ''-'' @ b @ ''-'' @ c) = Inr n
         \<and> accepts_design_id func (Code (a @ ''-'' @ b @ ''-'' @ c)) = func n))
   \<and> (length s \<noteq> 14 \<longrightarrow>
        accepts_design_id func (Code s) = Inl (Raised (new InvalidDesignCodeError)))
   \<and> accepts_design_id func (Id i) = func i"
proof (intro conjI impI)
  assume h: "length a = 4 \<and> length b = 4 \<and> length c = 4
      \<and> set (a @ b @ c) \<subseteq> set DESIGN_CODE_ALPHABET"
  let ?s = "a @ ''-'' @ b @ ''-'' @ c"
  have m: "fullmatch design_code_regex ?s"
    using h by (intro fullmatch_hyphenated) simp_all
  obtain n where n: "design_id_loop 0 (a @ b @ c) = Inr n"
    using design_id_loop_alphabet [of "a @ b @ c" 0] h by blast
  have "design_id ?s = Inr n"
    using h n by (simp only: design_id_def strip_hyphens_hyphenated)
  moreover from this m have "accepts_design_id func (Code ?s) = func n"
    by (simp add: accepts_design_id_def InvalidDesignCodeError_validate_def bind_def)
  ultimately show "\<exists>n. design_id ?s = Inr n \<and> accepts_design_id func (Code ?s) = func n"
    by blast
next
  assume "length s \<noteq> 14"
  then have "\<not> fullmatch design_code_regex s"
    using fullmatch_length by blast
  then show "accepts_design_id func (Code s) = Inl (Raised (new InvalidDesignCodeError))"
    by (simp add: accepts_design_id_def InvalidDesignCodeError_validate_def bind_def)
next
  show "accepts_design_id func (Id i) = func i"
    by (simp add: accepts_design_id_def)
qed

theorem accepts_design_id_hyphens_required_witness:
  "length ''0000'' = 4 \<and> length ''00BC'' = 4 \<and> length ''000Y'' = 4
   \<and> set (''0000'' @ ''00BC'' @ ''000Y'') \<subseteq> set DESIGN_CODE_ALPHABET
   \<and> (\<exists>n. design_id ''0000-00BC-000Y'' = Inr n
         \<and> accepts_design_id Inr (Code ''0000-00BC-000Y'') = Inr n)
   \<and> length ''000000BC000Y'' \<noteq> 14
   \<and> accepts_design_id (Inr :: int \<Rightarrow> exn + int) (Code ''000000BC000Y'')
       = Inl (Raised (new InvalidDesignCodeError))"
  using accepts_design_id_hyphens_required
    [where a = "''0000''" and b = "''00BC''" and c = "''000Y''" and s = "''000000BC000Y''"
       and func = "Inr :: int \<Rightarrow> exn + int"]
  by (simp add: DESIGN_CODE_ALPHABET_def)

text \<open>The claim C3 as stated fails: a valid code of twelve symbols without hyphens, which
  \<open>design_id\<close> alone would convert, is refused by \<^verbatim>\<open>delete_design\<close> before any request is
  made, while the same code with hyphens is accepted.\<close>

theorem unhyphenated_code_rejected:
  "length ''000000BC000Y'' = 12
   \<and> set ''000000BC000Y'' \<subseteq> set DESIGN_CODE_ALPHABET
   \<and> design_id ''000000BC000Y'' = Inr 251910029
   \<and> delete_design (\<lambda>method path. Inr \<lparr>status_code = 200\<rparr>) (Code ''000000BC000Y'')
       = Inl (Raised (new InvalidDesignCodeError))
   \<and> delete_design (\<lambda>method path. Inr \<lparr>status_code = 200\<rparr>) (Code ''0000-00BC-000Y'')
       = Inr ()"
proof -
  have id: "design_id ''000000BC000Y'' = Inr 251910029"
    by code_simp
  have chars: "set ''000000BC000Y'' \<subseteq> set DESIGN_CODE_ALPHABET"
    by (simp add: DESIGN_CODE_ALPHABET_def)
  have "\<not> fullmatch design_code_regex ''000000BC000Y''"
    using fullmatch_length [of "''000000BC000Y''"] by auto
  then have refused:
    "delete_design (\<lambda>method path. Inr \<lparr>status_code = 200\<rparr>) (Code ''000000BC000Y'')
       = Inl (Raised (new InvalidDesignCodeError))"
    by (simp add: delete_design_def accepts_design_id_def InvalidDesignCodeError_validate_def
        bind_def)
  have "fullmatch design_code_regex ''0000-00BC-000Y''"
    by (simp add: design_code_regex_items DESIGN_CODE_ALPHABET_def)
  then have accepted:
    "delete_design (\<lambda>method path. Inr \<lparr>status_code = 200\<rparr>) (Code ''0000-00BC-000Y'')
       = Inr ()"
    using id
    by (simp add: delete_design_def accepts_design_id_def InvalidDesignCodeError_validate_def
        bind_def delete_design_undecorated_def NOT_FOUND_def design_id_def strip_hyphens_def)
  from id chars refused accepted show ?thesis
    by simp
qed

text \<open>Claim C6. \<^verbatim>\<open>delete_design\<close> raises \<^verbatim>\<open>UnknownDesignCodeError\<close> (code 201) exactly on
  the status 404, but it never calls \<^verbatim>\<open>raise_for_status\<close>: on every other status, a
  failure such as 500 included, it returns normally.\<close>

theorem delete_design_swallows_failure:
  "delete_design (\<lambda>method path. Inr resp) (Id n) =
     (if status_code resp = 404 then Inl (Raised (new UnknownDesignCodeError)) else Inr ())
   \<and> delete_design (\<lambda>method path. Inr \<lparr>status_code = 500\<rparr>) (Id 7) = Inr ()
   \<and> getattr (new UnknownDesignCodeError) ''code'' = Inr (PInt 201)"
  by (simp add: delete_design_def accepts_design_id_def delete_design_undecorated_def
      bind_def NOT_FOUND_def getattr_def new_def mro_def dict_get_def)

text \<open>Claim C8. The structured report is not available for every error class:
  \<^verbatim>\<open>InvalidLayerIndexError\<close> has no \<^verbatim>\<open>http_status\<close>, so its \<^verbatim>\<open>to_dict\<close> raises
  \<^verbatim>\<open>AttributeError\<close> (and its body ends without \<^verbatim>\<open>return\<close>); \<^verbatim>\<open>CannotScaleThumbnailError\<close>
  derives from no error class and has no \<^verbatim>\<open>to_dict\<close>; the second \<^verbatim>\<open>InvalidImageError\<close>
  assigns \<^verbatim>\<open>status\<close> in place of \<^verbatim>\<open>http_status\<close>. A class that follows the pattern, here
  \<^verbatim>\<open>UnknownDesignCodeError\<close>, reports the three keys.\<close>

theorem to_dict_contract_broken:
  "to_dict (new_InvalidLayerIndexError 3) = Inl (Python AttributeError)
   \<and> getattr (new_InvalidLayerIndexError 3) ''http_status'' = Inl (Python AttributeError)
   \<and> to_dict (new CannotScaleThumbnailError) = Inl (Python AttributeError)
   \<and> to_dict (new InvalidImageError) = Inl (Python AttributeError)
   \<and> to_dict (new UnknownDesignCodeError) =
        Inr (Some [(''error'', PStr ''unknown design code''), (''error_code'', PInt 201),
                   (''http_status'', PInt 404)])"
  by (simp add: to_dict_def new_InvalidLayerIndexError_def new_def mro_def getattr_def
      dict_get_def bind_def super_dict_def NOT_FOUND_def)

section \<open>The image codec: packing, validation, internal layers, the palette\<close>

lemma unpack_from_nth:
  assumes "8 \<le> length xs"
  shows "TWO_LITTLE_ENDIAN_UINT32S_unpack_from xs =
           Inr (uint32 (xs ! 0) (xs ! 1) (xs ! 2) (xs ! 3), uint32 (xs ! 4) (xs ! 5) (xs ! 6) (xs ! 7))"
proof -
  from assms obtain b0 b1 b2 b3 b4 b5 b6 b7 rest
    where "xs = b0 # b1 # b2 # b3 # b4 # b5 # b6 # b7 # rest"
    by (auto simp: eval_nat_numeral Suc_le_length_iff)
  then show ?thesis by simp
qed

lemma pixels_of_8:
  assumes "8 \<le> length xs"
  shows "pixels_of xs = uint32 (xs ! 0) (xs ! 1) (xs ! 2) (xs ! 3)
           # uint32 (xs ! 4) (xs ! 5) (xs ! 6) (xs ! 7) # pixels_of (drop 8 xs)"
proof -
  from assms obtain b0 b1 b2 b3 b4 b5 b6 b7 rest
    where "xs = b0 # b1 # b2 # b3 # b4 # b5 # b6 # b7 # rest"
    by (auto simp: eval_nat_numeral Suc_le_length_iff)
  then show ?thesis by simp
qed

lemma or_nat_less:
  fixes x y :: nat
  assumes "x < 2 ^ n" "y < 2 ^ n"
  shows "x OR y < 2 ^ n"
proof -
  have "int x OR int y < 2 ^ n"
    using assms by (intro OR_upper) simp_all
  then have "int (x OR y) < int (2 ^ n)"
    by (simp add: of_nat_or_eq)
  then show ?thesis
    by (simp only: of_nat_less_iff)
qed

lemma packed_index_fits:
  assumes "i1 < 16" "i2 < 16"
  shows "push_bit 4 i2 OR i1 < (256::nat)"
proof -
  have "push_bit 4 i2 < (2::nat) ^ 8" "i1 < (2::nat) ^ 8"
    using assms by (simp_all add: push_bit_eq_mult)
  then have "push_bit 4 i2 OR i1 < (2::nat) ^ 8"
    by (rule or_nat_less)
  then show ?thesis by simp
qed

lemma chunked_8_step:
  assumes "length pxs = 8 * Suc k"
  shows "chunked pxs 8 = take 8 pxs # chunked (drop 8 pxs) 8"
  using assms by (intro chunked_step) auto

lemma encode_image_loop_pairs:
  assumes "length pxs = 8 * k"
    and "\<forall>c \<in> set (pixels_of pxs). \<exists>i<16. dict_get palette c = Some i"
  shows "encode_image_loop palette (chunked pxs 8) img =
           Inr (img @ packed_pairs palette (pixels_of pxs))"
  using assms
proof (induction k arbitrary: pxs img)
  case 0
  then show ?case by (simp add: chunked_Nil)
next
  case (Suc k)
  let ?px1 = "uint32 (pxs ! 0) (pxs ! 1) (pxs ! 2) (pxs ! 3)"
  let ?px2 = "uint32 (pxs ! 4) (pxs ! 5) (pxs ! 6) (pxs ! 7)"
  have len: "8 \<le> length pxs" using Suc.prems(1) by simp
  have pixels: "pixels_of pxs = ?px1 # ?px2 # pixels_of (drop 8 pxs)"
    by (rule pixels_of_8 [OF len])
  have unpack: "TWO_LITTLE_ENDIAN_UINT32S_unpack_from (take 8 pxs) = Inr (?px1, ?px2)"
    using len by (subst unpack_from_nth) simp_all
  obtain i1 i2 where i: "dict_get palette ?px1 = Some i1" "i1 < 16"
      "dict_get palette ?px2 = Some i2" "i2 < 16"
    using Suc.prems(2) unfolding pixels by auto
  have rest: "encode_image_loop palette (chunked (drop 8 pxs) 8) img' =
      Inr (img' @ packed_pairs palette (pixels_of (drop 8 pxs)))" for img'
    using Suc.prems by (intro Suc.IH) (simp_all add: pixels)
  show ?case
    using i packed_index_fits [OF i(2) i(4)]
    by (simp add: chunked_8_step [OF Suc.prems(1)] unpack bind_def to_bytes1_def rest pixels
        index_of_def)
qed

lemma length_packed_pairs: "length (packed_pairs palette ps) = length ps div 2"
  by (induction palette ps rule: packed_pairs.induct) simp_all

lemma nth_packed_pairs:
  "j < length ps div 2 \<Longrightarrow>
     packed_pairs palette ps ! j =
       of_nat (push_bit 4 (index_of palette (ps ! (2 * j + 1))) OR index_of palette (ps ! (2 * j)))"
proof (induction palette ps arbitrary: j rule: packed_pairs.induct)
  case (1 palette px1 px2 rest)
  then show ?case by (cases j) simp_all
qed simp_all

lemma length_pixels_of: "length (pixels_of pxs) = length pxs div 4"
  by (induction pxs rule: pixels_of.induct) simp_all

text \<open>Claim C4, as amended. For a buffer that holds an even number of whole four-byte
  pixels, each with a color that the palette maps to an index below 15, \<open>encode_image\<close>
  returns one byte per consecutive pair of pixels, the index of the second pixel in the
  high nibble and the index of the first in the low nibble, and as many bytes as half
  the number of pixels.\<close>

theorem encode_image_pairs:
  assumes "length pxs mod 8 = 0"
    and "\<forall>c \<in> set (pixels_of pxs). \<exists>i<15. dict_get palette c = Some i"
  shows "\<exists>out. encode_image palette pxs = Inr out
           \<and> length out = length (pixels_of pxs) div 2
           \<and> length (pixels_of pxs) = length pxs div 4
           \<and> (\<forall>j<length out.
                 out ! j = of_nat (push_bit 4 (index_of palette (pixels_of pxs ! (2 * j + 1)))
                                     OR index_of palette (pixels_of pxs ! (2 * j))))"
proof -
  from assms(1) obtain k where k: "length pxs = 8 * k"
    by (auto simp: mod_eq_0_iff_dvd)
  have "\<forall>c \<in> set (pixels_of pxs). \<exists>i<16. dict_get palette c = Some i"
  proof
    fix c
    assume "c \<in> set (pixels_of pxs)"
    with assms(2) obtain i where "i < 15" "dict_get palette c = Some i"
      by blast
    then show "\<exists>i<16. dict_get palette c = Some i"
      by (intro exI [of _ i]) simp
  qed
  then have "encode_image palette pxs = Inr (packed_pairs palette (pixels_of pxs))"
    using encode_image_loop_pairs [OF k, of palette "[]"] by (simp add: encode_image_def)
  then show ?thesis
    by (simp add: length_packed_pairs nth_packed_pairs length_pixels_of)
qed

theorem encode_image_pairs_witness:
  "length [0, 0, 0, 1, 0, 0, 0, 2 :: 8 word] mod 8 = 0
   \<and> pixels_of [0, 0, 0, 1, 0, 0, 0, 2] = [1, 2]
   \<and> dict_get [(1 :: 32 word, 0 :: nat), (2, 3)] 1 = Some 0
   \<and> dict_get [(1 :: 32 word, 0 :: nat), (2, 3)] 2 = Some 3
   \<and> (\<exists>out. encode_image [(1, 0), (2, 3)] [0, 0, 0, 1, 0, 0, 0, 2] = Inr out
         \<and> length out = 1 \<and> out ! 0 = 48)"
proof -
  have u: "uint32 0 0 0 1 = 1" "uint32 0 0 0 2 = 2"
    by (simp_all add: uint32_def)
  have px: "pixels_of [0, 0, 0, 1, 0, 0, 0, 2] = [1, 2]"
    by (simp add: u)
  have pal: "dict_get [(1 :: 32 word, 0 :: nat), (2, 3)] 1 = Some 0"
    "dict_get [(1 :: 32 word, 0 :: nat), (2, 3)] 2 = Some 3"
    by (simp_all add: dict_get_def)
  have colors: "\<forall>c \<in> set (pixels_of [0, 0, 0, 1, 0, 0, 0, 2]).
          \<exists>i<15. dict_get [(1 :: 32 word, 0 :: nat), (2, 3)] c = Some i"
    by (simp add: u pal)
  have even: "length [0, 0, 0, 1, 0, 0, 0, 2 :: 8 word] mod 8 = 0"
    by simp
  from encode_image_pairs [OF even colors] obtain out
    where out: "encode_image [(1, 0), (2, 3)] [0, 0, 0, 1, 0, 0, 0, 2] = Inr out"
      and len: "length out = length (pixels_of [0, 0, 0, 1, 0, 0, 0, 2]) div 2"
      and bytes: "\<forall>j<length out.
          out ! j = of_nat (push_bit 4 (index_of [(1, 0), (2, 3)]
                                          (pixels_of [0, 0, 0, 1, 0, 0, 0, 2] ! (2 * j + 1)))
                              OR index_of [(1, 0), (2, 3)]
                                   (pixels_of [0, 0, 0, 1, 0, 0, 0, 2] ! (2 * j)))"
    by blast
  have one: "length out = 1"
    using len by (simp add: px)
  have "push_bit 4 (3 :: nat) OR 0 = 48"
    by (simp add: push_bit_eq_mult)
  with bytes one have "out ! 0 = 48"
    by (simp add: u pal index_of_def)
  with out one px pal even show ?thesis
    by simp
qed

text \<open>The claim C4 as stated fails on a buffer with an odd number of pixels: the last
  chunk has four bytes, \<^verbatim>\<open>unpack_from\<close> wants eight, and nothing is returned.\<close>

theorem encode_image_odd_pixel_count:
  "pixels_of [0, 0, 0, 1] = [1]
   \<and> dict_get [(1 :: 32 word, 0 :: nat)] 1 = Some 0
   \<and> encode_image [(1, 0)] [0, 0, 0, 1] = Inl (Python StructError)"
  by (simp add: uint32_def dict_get_def encode_image_def chunked_step chunked_Nil bind_def)

lemma dict_set_fresh: "k \<notin> set (map fst d) \<Longrightarrow> dict_set d k v = d @ [(k, v)]"
  by (induction d) auto

lemma dict_of_distinct_aux:
  "distinct (map fst (acc @ kvs)) \<Longrightarrow>
     foldl (\<lambda>d (k, v). dict_set d k v) acc kvs = acc @ kvs"
proof (induction kvs arbitrary: acc)
  case Nil
  show ?case by simp
next
  case (Cons kv kvs)
  obtain k v where kv: "kv = (k, v)" by (cases kv)
  have "k \<notin> set (map fst acc)" using Cons.prems by (auto simp: kv)
  then have "dict_set acc k v = acc @ [(k, v)]" by (rule dict_set_fresh)
  moreover have "distinct (map fst ((acc @ [(k, v)]) @ kvs))"
    using Cons.prems by (simp add: kv)
  ultimately show ?case
    using Cons.IH [of "acc @ [(k, v)]"] by (simp add: kv)
qed

lemma dict_of_distinct: "distinct (map fst kvs) \<Longrightarrow> dict_of kvs = kvs"
  using dict_of_distinct_aux [of "[]" kvs] by (simp add: dict_of_def)

lemma distinct_layer_names: "distinct (map name (external_layers t))"
  by (cases t)
    (simp_all add: external_layers_def inherited_def mkLayer_def STANDARD_BODY_LAYERS_def
      LONG_BODY_LAYERS_def SHORT_SLEEVE_LAYERS_def LONG_SLEEVE_LAYERS_def
      WIDE_SLEEVE_LAYERS_def)

lemma external_layer_names_eq:
  "external_layer_names t = map (\<lambda>layer. (name layer, layer)) (external_layers t)"
  unfolding external_layer_names_def
  by (rule dict_of_distinct) (simp add: comp_def distinct_layer_names)

lemma validate_loop_supplied:
  "\<forall>l \<in> set ls. supplied images l \<Longrightarrow>
     validate_loop (map (\<lambda>layer. (name layer, layer)) ls) images = Inr ()"
  by (induction ls)
    (auto simp: supplied_def Layer_validate_def bind_def split: option.splits)

lemma validate_loop_missing:
  "\<forall>p \<in> set pre. supplied images p \<Longrightarrow> dict_get images (name l) = None \<Longrightarrow>
     validate_loop (map (\<lambda>layer. (name layer, layer)) (pre @ l # post)) images =
       Inl (Raised (new_MissingLayerError Encode_MissingLayerError l))"
  by (induction pre)
    (auto simp: supplied_def Layer_validate_def bind_def split: option.splits)

lemma supplied_key: "supplied images l \<Longrightarrow> name l \<in> set (dict_keys images)"
  by (auto simp: supplied_def dict_get_def dict_keys_def split: option.splits
      dest: map_of_SomeD intro: rev_image_eqI)

lemma to_dict_MissingLayerError:
  "to_dict (new_MissingLayerError Encode_MissingLayerError l) =
     Inr (Some [(''error'', PFormatted missing_layer_message), (''error_code'', PInt 38),
                (''http_status'', PInt 400), (''layer_name'', PStr (name l)),
                (''layer_size'', PSize (size' l))])"
  by (simp add: to_dict_def new_MissingLayerError_def mro_def getattr_def dict_get_def
      bind_def super_dict_def layer_attr_def format_message_def BAD_REQUEST_def)

lemma to_dict_InvalidLayerNameError:
  "to_dict (new_InvalidLayerNameError Encode_InvalidLayerNameError names) =
     Inr (Some [(''error'', PStr ''Invalid image layer name.''), (''error_code'', PInt 37),
                (''http_status'', PInt 400), (''valid_layer_names'', PStrList names)])"
  by (simp add: to_dict_def new_InvalidLayerNameError_def mro_def getattr_def dict_get_def
      bind_def super_dict_def BAD_REQUEST_def)

text \<open>Claim C5, as amended. When a declared external layer is absent from the layer
  mapping and every layer declared before it is supplied with its declared size,
  \<open>validate\<close> raises \<^verbatim>\<open>MissingLayerError\<close> carrying that layer, whose report names it. When
  every declared layer is supplied with its declared size and the mapping also holds a
  name the type does not declare, \<open>validate\<close> raises \<^verbatim>\<open>InvalidLayerNameError\<close>, whose report
  lists exactly the declared external layer names.\<close>

theorem validate_reports:
  "(external_layers (dtype d) = pre @ l # post
      \<and> (\<forall>p \<in> set pre. supplied (layer_images d) p)
      \<and> dict_get (layer_images d) (name l) = None \<longrightarrow>
      validate d = Inl (Raised (new_MissingLayerError Encode_MissingLayerError l))
      \<and> (\<exists>report. to_dict (new_MissingLayerError Encode_MissingLayerError l) = Inr (Some report)
            \<and> dict_get report ''layer_name'' = Some (PStr (name l))))
   \<and> ((\<forall>p \<in> set (external_layers (dtype d)). supplied (layer_images d) p)
      \<and> distinct (dict_keys (layer_images d))
      \<and> x \<in> set (dict_keys (layer_images d))
      \<and> x \<notin> set (map name (external_layers (dtype d))) \<longrightarrow>
      validate d = Inl (Raised (new_InvalidLayerNameError Encode_InvalidLayerNameError
                                  (map name (external_layers (dtype d)))))
      \<and> (\<exists>report. to_dict (new_InvalidLayerNameError Encode_InvalidLayerNameError
                               (map name (external_layers (dtype d)))) = Inr (Some report)
            \<and> dict_get report ''valid_layer_names''
                = Some (PStrList (map name (external_layers (dtype d))))))"
proof (intro conjI impI)
  assume h: "external_layers (dtype d) = pre @ l # post
      \<and> (\<forall>p \<in> set pre. supplied (layer_images d) p)
      \<and> dict_get (layer_images d) (name l) = None"
  then have ext: "external_layers (dtype d) = pre @ l # post"
    and pre: "\<forall>p \<in> set pre. supplied (layer_images d) p"
    and missing: "dict_get (layer_images d) (name l) = None"
    by simp_all
  have "validate_loop (external_layer_names (dtype d)) (layer_images d) =
      Inl (Raised (new_MissingLayerError Encode_MissingLayerError l))"
    using validate_loop_missing [OF pre missing, of post]
    by (simp only: external_layer_names_eq ext)
  then show "validate d = Inl (Raised (new_MissingLayerError Encode_MissingLayerError l))"
    by (simp add: validate_def bind_def)
  show "\<exists>report. to_dict (new_MissingLayerError Encode_MissingLayerError l) = Inr (Some report)
      \<and> dict_get report ''layer_name'' = Some (PStr (name l))"
    by (simp add: to_dict_MissingLayerError dict_get_def)
next
  let ?names = "map name (external_layers (dtype d))"
  assume h: "(\<forall>p \<in> set (external_layers (dtype d)). supplied (layer_images d) p)
      \<and> distinct (dict_keys (layer_images d))
      \<and> x \<in> set (dict_keys (layer_images d))
      \<and> x \<notin> set ?names"
  have "set ?names \<subseteq> set (dict_keys (layer_images d))"
    using h supplied_key by auto
  with h have "set ?names \<subset> set (dict_keys (layer_images d))"
    by blast
  then have "card (set ?names) < card (set (dict_keys (layer_images d)))"
    by (intro psubset_card_mono) simp_all
  moreover have "card (set ?names) = length (external_layers (dtype d))"
    using distinct_card [OF distinct_layer_names [of "dtype d"]] by simp
  moreover have "card (set (dict_keys (layer_images d))) = length (layer_images d)"
    using h distinct_card [of "dict_keys (layer_images d)"] by (simp add: dict_keys_def)
  ultimately have more: "length (external_layers (dtype d)) < length (layer_images d)"
    by linarith
  have keys: "dict_keys (external_layer_names (dtype d)) = ?names"
    by (simp add: external_layer_names_eq dict_keys_def comp_def)
  have all: "\<forall>p \<in> set (external_layers (dtype d)). supplied (layer_images d) p"
    using h by simp
  have "validate_loop (external_layer_names (dtype d)) (layer_images d) = Inr ()"
    using validate_loop_supplied [OF all]
    by (simp only: external_layer_names_eq)
  then show "validate d =
      Inl (Raised (new_InvalidLayerNameError Encode_InvalidLayerNameError ?names))"
    using more by (simp add: validate_def bind_def keys)
  show "\<exists>report. to_dict (new_InvalidLayerNameError Encode_InvalidLayerNameError ?names)
        = Inr (Some report)
      \<and> dict_get report ''valid_layer_names'' = Some (PStrList ?names)"
    by (simp add: to_dict_InvalidLayerNameError dict_get_def)
qed

theorem validate_reports_witness:
  "external_layers TankTop = [mkLayer ''back'' STANDARD] @ mkLayer ''front'' STANDARD # []
   \<and> supplied [(''back'', as_wand (mkLayer ''back'' STANDARD))] (mkLayer ''back'' STANDARD)
   \<and> dict_get [(''back'', as_wand (mkLayer ''back'' STANDARD))] ''front'' = None
   \<and> validate \<lparr>dtype = TankTop, author_name = None, island_name = None, design_name = None,
                 layer_images = [(''back'', as_wand (mkLayer ''back'' STANDARD))]\<rparr>
       = Inl (Raised (new_MissingLayerError Encode_MissingLayerError (mkLayer ''front'' STANDARD)))
   \<and> validate \<lparr>dtype = TankTop, author_name = None, island_name = None, design_name = None,
                 layer_images = [(''hood'', as_wand (mkLayer ''hood'' STANDARD)),
                                 (''back'', as_wand (mkLayer ''back'' STANDARD)),
                                 (''front'', as_wand (mkLayer ''front'' STANDARD))]\<rparr>
       = Inl (Raised (new_InvalidLayerNameError Encode_InvalidLayerNameError [''back'', ''front'']))"
proof -
  let ?back_layer = "mkLayer ''back'' STANDARD" and ?front_layer = "mkLayer ''front'' STANDARD"
  let ?d1 = "\<lparr>dtype = TankTop, author_name = None, island_name = None, design_name = None,
                 layer_images = [(''back'', as_wand ?back_layer)]\<rparr>"
  let ?d2 = "\<lparr>dtype = TankTop, author_name = None, island_name = None, design_name = None,
                 layer_images = [(''hood'', as_wand (mkLayer ''hood'' STANDARD)),
                                 (''back'', as_wand ?back_layer), (''front'', as_wand ?front_layer)]\<rparr>"
  have ext: "external_layers TankTop = [?back_layer, ?front_layer]"
    by (simp add: external_layers_def inherited_def STANDARD_BODY_LAYERS_def)
  have s1: "supplied (layer_images ?d1) ?back_layer"
    by (simp add: supplied_def dict_get_def mkLayer_def as_wand_def)
  have m1: "dict_get (layer_images ?d1) (name ?front_layer) = None"
    by (simp add: dict_get_def mkLayer_def)
  have s2: "supplied (layer_images ?d2) ?back_layer" "supplied (layer_images ?d2) ?front_layer"
    by (simp_all add: supplied_def dict_get_def mkLayer_def as_wand_def)
  have names: "map name [?back_layer, ?front_layer] = [''back'', ''front'']"
    by (simp add: mkLayer_def)
  have a: "validate ?d1 = Inl (Raised (new_MissingLayerError Encode_MissingLayerError ?front_layer))"
    using validate_reports [where d = ?d1 and pre = "[?back_layer]" and l = ?front_layer and post = "[]"]
      ext s1 m1 by simp
  have b: "validate ?d2 =
      Inl (Raised (new_InvalidLayerNameError Encode_InvalidLayerNameError [''back'', ''front'']))"
    using validate_reports [where d = ?d2 and x = "''hood''"] ext s2 names
    by (simp add: dict_keys_def)
  show ?thesis
    using ext s1 m1 a b by (simp add: mkLayer_def)
qed

text \<open>The claim C5 as stated fails when a layer declared before the missing one has the
  wrong size: the loop of \<open>validate\<close> meets the size mismatch first and raises
  \<^verbatim>\<open>InvalidLayerSizeError\<close>, not \<^verbatim>\<open>MissingLayerError\<close>.\<close>

theorem validate_size_before_missing:
  "map name (external_layers (dtype half_tank_top)) = [''back'', ''front'']
   \<and> dict_keys (layer_images half_tank_top) = [''back'']
   \<and> validate half_tank_top = Inl (Raised (new_Encode_InvalidLayerSizeError ''back''))"
proof -
  have ext: "external_layers TankTop = [mkLayer ''back'' STANDARD, mkLayer ''front'' STANDARD]"
    by (simp add: external_layers_def inherited_def STANDARD_BODY_LAYERS_def)
  have "STANDARD \<noteq> (16, 16)"
    by (simp add: STANDARD_def STANDARD_WIDTH_def STANDARD_HEIGHT_def)
  then show ?thesis
    by (simp add: half_tank_top_def validate_def external_layer_names_eq ext mkLayer_def
        dict_get_def dict_keys_def Layer_validate_def as_wand_def bind_def)
qed

lemma dvd4_Suc4: "4 dvd Suc (Suc (Suc (Suc n))) \<longleftrightarrow> 4 dvd n"
  by presburger

lemma dvd4_small:
  "\<not> 4 dvd Suc 0" "\<not> 4 dvd Suc (Suc 0)" "\<not> 4 dvd Suc (Suc (Suc 0))"
  by presburger+

lemma gen_palette_pixels_step:
  "gen_palette_pixels st ([b0, b1, b2, b3] # pxs) =
     gen_palette_pixels (palette_add st (uint32 b0 b1 b2 b3)) pxs"
  by (cases st) (simp add: bind_def palette_add_def)

lemma gen_palette_pixels_fold:
  "4 dvd length pxs \<Longrightarrow>
     gen_palette_pixels st (chunked pxs 4) = Inr (foldl palette_add st (pixels_of pxs))"
proof (induction pxs arbitrary: st rule: pixels_of.induct)
  case (1 b0 b1 b2 b3 rest)
  have "4 dvd length rest" using "1.prems" by (simp add: dvd4_Suc4)
  moreover have "chunked (b0 # b1 # b2 # b3 # rest) 4 = [b0, b1, b2, b3] # chunked rest 4"
    by (subst chunked_step) simp_all
  ultimately show ?case
    using "1.IH" by (simp add: gen_palette_pixels_step)
qed (simp_all add: chunked_Nil dvd4_small)

lemma gen_palette_layers_fold:
  "\<forall>pxs \<in> set pxss. 4 dvd length pxs \<Longrightarrow>
     gen_palette_layers st pxss = Inr (foldl palette_add st (concat (map pixels_of pxss)))"
  by (induction pxss arbitrary: st) (simp_all add: gen_palette_pixels_fold bind_def)

lemma dict_get_None_iff: "dict_get d k = None \<longleftrightarrow> k \<notin> set (dict_keys d)"
  by (simp add: dict_get_def dict_keys_def map_of_eq_None_iff)

lemma palette_add_keys:
  "dict_keys (fst (palette_add st c)) =
     (if c \<in> set (dict_keys (fst st)) then dict_keys (fst st) else dict_keys (fst st) @ [c])"
  by (auto simp: palette_add_def dict_get_None_iff dict_set_fresh dict_keys_def)

lemma foldl_palette_add_keys:
  "set (dict_keys (fst (foldl palette_add st cs))) = set (dict_keys (fst st)) \<union> set cs"
  by (induction cs arbitrary: st) (auto simp: palette_add_keys)

lemma foldl_palette_add_distinct:
  "distinct (dict_keys (fst st)) \<Longrightarrow> distinct (dict_keys (fst (foldl palette_add st cs)))"
  by (induction cs arbitrary: st) (auto simp: palette_add_keys)

lemma gen_palette_overflow:
  assumes "\<forall>pxs \<in> set pxss. 4 dvd length pxs"
    and "PALETTE_SIZE < card (set (concat (map pixels_of pxss)))"
  shows "gen_palette pxss = Inl (Raised (new Encode_InvalidPaletteError))"
proof -
  let ?st = "foldl palette_add ([], 0) (concat (map pixels_of pxss))"
  have "distinct (dict_keys (fst ?st))"
    by (rule foldl_palette_add_distinct) (simp add: dict_keys_def)
  then have "card (set (dict_keys (fst ?st))) = length (dict_keys (fst ?st))"
    by (rule distinct_card)
  then have "length (fst ?st) = card (set (dict_keys (fst ?st)))"
    by (simp add: dict_keys_def)
  also have "\<dots> = card (set (concat (map pixels_of pxss)))"
    by (simp only: foldl_palette_add_keys) (simp add: dict_keys_def)
  finally have "PALETTE_SIZE < length (fst ?st)"
    using assms(2) by simp
  then show ?thesis
    by (cases ?st)
      (simp add: gen_palette_def gen_palette_layers_fold [OF assms(1)] bind_def)
qed

lemma encode_pro_palette_overflow:
  assumes "validate d = Inr ()" "internalize copy d = Inr images"
    and "\<forall>img \<in> set images. 4 dvd length (export_pixels img)"
    and "PALETTE_SIZE < card (set (concat (map pixels_of (map export_pixels images))))"
  shows "encode_pro copy d = Inl (Raised (new Encode_InvalidPaletteError))"
proof -
  have "gen_palette (map export_pixels images) = Inl (Raised (new Encode_InvalidPaletteError))"
    using assms(3,4) by (intro gen_palette_overflow) simp_all
  then show ?thesis
    using assms(1,2) by (simp add: encode_pro_def bind_def)
qed

lemma pixels_of_append:
  "4 dvd length a \<Longrightarrow> pixels_of (a @ b) = pixels_of a @ pixels_of b"
proof (induction a rule: pixels_of.induct)
  case (1 b0 b1 b2 b3 rest)
  then have "4 dvd length rest" by (simp add: dvd4_Suc4)
  with 1 show ?case by simp
qed (simp_all add: dvd4_small)

lemma pixels_of_sixteen_colors:
  "length sixteen_colors = 64 \<and> distinct (pixels_of sixteen_colors)
     \<and> length (pixels_of sixteen_colors) = 16"
  by code_simp

text \<open>Claim C7. The four correspondence entries of \<^verbatim>\<open>KnitCap\<close> read the four quadrants
  of the cap image, but every entry has the internal index 0: whatever image the imaging
  library makes of the destination in \<^verbatim>\<open>copy\<close> (here \<open>paste\<close>), the four quadrants are
  pasted one after the other on the internal layer 0, and the internal layers 1, 2 and 3
  stay blank.\<close>

theorem KnitCap_quadrants_one_slot:
  "map_option (map internal_idx) (correspondence KnitCap) = Some [0, 0, 0, 0]
   \<and> map_option (map external_pos) (correspondence KnitCap)
       = Some [(0, 0), (32, 0), (0, 32), (32, 32)]
   \<and> internalize (\<lambda>dst src dst_position src_position dims.
                     Inr (paste dst src dst_position src_position dims))
        \<lparr>dtype = KnitCap, author_name = a, island_name = i, design_name = n,
         layer_images = [(''cap'', cap)]\<rparr>
       = Inr [paste (paste (paste (paste (as_wand (mkLayer ''0'' STANDARD))
                                     cap (0, 0) (0, 0) STANDARD)
                              cap (0, 0) (32, 0) STANDARD)
                       cap (0, 0) (0, 32) STANDARD)
                cap (0, 0) (32, 32) STANDARD,
              as_wand (mkLayer ''1'' STANDARD),
              as_wand (mkLayer ''2'' (32, 21)),
              as_wand (mkLayer ''3'' (32, 21))]"
  by (simp add: correspondence_def inherited_def mkLayerCorrespondence_def internalize_def
      one_to_one_def internal_layers_def dict_get_def bind_def)

text \<open>Claim C10. For a type without correspondence list, \<open>internalize\<close> returns the
  values of the layer mapping in its insertion order: two tank tops with the same
  bindings, inserted in the declared order (back, front) and in the other order,
  internalize to the two orders of the two images.\<close>

theorem internalize_insertion_order:
  "(one_to_one (dtype d) \<longrightarrow> internalize copy d = Inr (dict_values (layer_images d)))
   \<and> one_to_one TankTop
   \<and> map name (external_layers TankTop) = [''back'', ''front'']
   \<and> map_of [(''front'', f), (''back'', b)] = map_of [(''back'', b), (''front'', f)]
   \<and> internalize copy \<lparr>dtype = TankTop, author_name = a, island_name = i, design_name = n,
                       layer_images = [(''back'', b), (''front'', f)]\<rparr> = Inr [b, f]
   \<and> internalize copy \<lparr>dtype = TankTop, author_name = a, island_name = i, design_name = n,
                       layer_images = [(''front'', f), (''back'', b)]\<rparr> = Inr [f, b]
   \<and> (f \<noteq> b \<longrightarrow>
        internalize copy \<lparr>dtype = TankTop, author_name = a, island_name = i, design_name = n,
                          layer_images = [(''back'', b), (''front'', f)]\<rparr>
        \<noteq> internalize copy \<lparr>dtype = TankTop, author_name = a, island_name = i,
                             design_name = n,
                             layer_images = [(''front'', f), (''back'', b)]\<rparr>)"
proof -
  have "map_of [(''front'', f), (''back'', b)] = map_of [(''back'', b), (''front'', f)]"
    by (rule ext) simp
  moreover have "one_to_one TankTop"
    by (simp add: one_to_one_def correspondence_def inherited_def)
  moreover have "map name (external_layers TankTop) = [''back'', ''front'']"
    by (simp add: external_layers_def inherited_def STANDARD_BODY_LAYERS_def mkLayer_def)
  ultimately show ?thesis
    by (simp add: internalize_def dict_values_def)
qed

theorem internalize_insertion_order_witness:
  "one_to_one TankTop
   \<and> as_wand (mkLayer ''front'' (1, 1)) \<noteq> as_wand (mkLayer ''back'' (2, 2))
   \<and> internalize (\<lambda>dst src dst_position src_position dims. Inr dst)
        \<lparr>dtype = TankTop, author_name = None, island_name = None, design_name = None,
         layer_images = [(''front'', as_wand (mkLayer ''front'' (1, 1))),
                         (''back'', as_wand (mkLayer ''back'' (2, 2)))]\<rparr>
       = Inr [as_wand (mkLayer ''front'' (1, 1)), as_wand (mkLayer ''back'' (2, 2))]
   \<and> internalize (\<lambda>dst src dst_position src_position dims. Inr dst)
        \<lparr>dtype = TankTop, author_name = None, island_name = None, design_name = None,
         layer_images = [(''back'', as_wand (mkLayer ''back'' (2, 2))),
                         (''front'', as_wand (mkLayer ''front'' (1, 1)))]\<rparr>
       \<noteq> internalize (\<lambda>dst src dst_position src_position dims. Inr dst)
        \<lparr>dtype = TankTop, author_name = None, island_name = None, design_name = None,
         layer_images = [(''front'', as_wand (mkLayer ''front'' (1, 1))),
                         (''back'', as_wand (mkLayer ''back'' (2, 2)))]\<rparr>"
proof -
  let ?f = "as_wand (mkLayer ''front'' (1, 1))" and ?b = "as_wand (mkLayer ''back'' (2, 2))"
  let ?copy = "\<lambda>dst src dst_position src_position dims :: XY. (Inr dst :: exn + image)"
  have ne: "?f \<noteq> ?b"
    by (simp add: as_wand_def mkLayer_def)
  from internalize_insertion_order
    [where d = "\<lparr>dtype = TankTop, author_name = None, island_name = None, design_name = None,
         layer_images = [(''front'', ?f), (''back'', ?b)]\<rparr>"
      and copy = ?copy and f = ?f and b = ?b and a = None and i = None and n = None]
  show ?thesis
    using ne by (simp add: dict_values_def)
qed

text \<open>Claim C2. A tank top with sixteen colors in its layers takes the pro path, passes
  validation and fails in \<^verbatim>\<open>gen_palette\<close> with no payload; the exception is the
  \<^verbatim>\<open>InvalidPaletteError\<close> that designs/encode.py declares, whose code is 27, not the class
  of errors.py, whose code is 208.\<close>

theorem encode_pro_raises_code_27:
  "pro colorful_tank_top
   \<and> validate colorful_tank_top = Inr ()
   \<and> encode_pro copy colorful_tank_top = Inl (Raised (new Encode_InvalidPaletteError))
   \<and> getattr (new Encode_InvalidPaletteError) ''code'' = Inr (PInt 27)
   \<and> getattr (new InvalidPaletteError) ''code'' = Inr (PInt 208)"
proof -
  let ?back_layer = "\<lparr>image_size = (32, 32),
      export_pixels = sixteen_colors @ replicate (4 * (32 * 32 - 16)) 0\<rparr>"
  let ?front_layer = "as_wand (mkLayer ''front'' STANDARD)"
  have ext: "external_layers TankTop = [mkLayer ''back'' STANDARD, mkLayer ''front'' STANDARD]"
    by (simp add: external_layers_def inherited_def STANDARD_BODY_LAYERS_def)
  have std: "STANDARD = (32, 32)"
    by (simp add: STANDARD_def STANDARD_WIDTH_def STANDARD_HEIGHT_def)
  have pro: "pro colorful_tank_top"
    by (simp add: pro_def colorful_tank_top_def internal_layers_def inherited_def ext
        enumerate_eq_zip)
  have valid: "validate colorful_tank_top = Inr ()"
    by (simp add: colorful_tank_top_def validate_def external_layer_names_eq ext mkLayer_def
        dict_get_def Layer_validate_def as_wand_def bind_def std)
  have internal: "internalize copy colorful_tank_top = Inr [?back_layer, ?front_layer]"
    by (simp add: colorful_tank_top_def internalize_def one_to_one_def correspondence_def
        inherited_def dict_values_def)
  have sixteen: "length sixteen_colors = 64" "distinct (pixels_of sixteen_colors)"
    "length (pixels_of sixteen_colors) = 16"
    using pixels_of_sixteen_colors by simp_all
  have whole: "\<forall>img \<in> set [?back_layer, ?front_layer]. 4 dvd length (export_pixels img)"
    by (simp add: sixteen as_wand_def)
  have "set (pixels_of sixteen_colors)
      \<subseteq> set (concat (map pixels_of (map export_pixels [?back_layer, ?front_layer])))"
    by (simp add: pixels_of_append sixteen)
  then have "card (set (pixels_of sixteen_colors))
      \<le> card (set (concat (map pixels_of (map export_pixels [?back_layer, ?front_layer]))))"
    by (intro card_mono) simp_all
  moreover have "card (set (pixels_of sixteen_colors)) = 16"
    using distinct_card [OF sixteen(2)] sixteen(3) by simp
  ultimately have many:
    "PALETTE_SIZE < card (set (concat (map pixels_of (map export_pixels [?back_layer, ?front_layer]))))"
    by (simp add: PALETTE_SIZE_def)
  have "encode_pro copy colorful_tank_top = Inl (Raised (new Encode_InvalidPaletteError))"
    by (rule encode_pro_palette_overflow [OF valid internal whole many])
  moreover have "getattr (new Encode_InvalidPaletteError) ''code'' = Inr (PInt 27)"
    "getattr (new InvalidPaletteError) ''code'' = Inr (PInt 208)"
    by (simp_all add: getattr_def new_def mro_def dict_get_def)
  ultimately show ?thesis
    using pro valid by simp
qed

end
